theory Spec2Isabelle
  imports Complex_Main
begin

section \<open>Vectors and rigid bodies\<close>

text \<open>
  The game keeps every entity as a matter-js body and does its geometry with the
  library's \<open>Vector\<close> helpers. The game's own arithmetic (distances, directions,
  forces, the bounds of the field) is modelled on \<open>real\<close>. What the library does
  inside \<open>Body.setPosition\<close> and \<open>Body.setVelocity\<close> is modelled with the
  arithmetic as a parameter, over any type \<open>'n\<close> of numbers: JavaScript rounds every
  sum, a value that is not finite stays so, and the theorems about these two
  functions hold whatever the arithmetic does.
\<close>

record 'n vector =
  vec_x :: 'n
  vec_y :: 'n

text \<open>The fields of \<open>Matter.Body\<close> that the game reads or writes, itself or through
  the library's functions. \<open>deltaTime\<close> is the step of the body's last update; the
  engine writes it, the game's handlers never do.\<close>

record 'n body =
  position :: "'n vector"
  positionPrev :: "'n vector"
  velocity :: "'n vector"
  force :: "'n vector"
  torque :: 'n
  deltaTime :: 'n

definition zero_vector :: "real vector" where
  "zero_vector = \<lparr>vec_x = 0, vec_y = 0\<rparr>"

text \<open>\<open>Vector.sub\<close>, \<open>Vector.mult\<close>, \<open>Vector.dot\<close>, \<open>Vector.magnitude\<close>.\<close>

definition sub :: "real vector \<Rightarrow> real vector \<Rightarrow> real vector" where
  "sub a b = \<lparr>vec_x = vec_x a - vec_x b, vec_y = vec_y a - vec_y b\<rparr>"

definition mult :: "real vector \<Rightarrow> real \<Rightarrow> real vector" where
  "mult v s = \<lparr>vec_x = vec_x v * s, vec_y = vec_y v * s\<rparr>"

definition dot :: "real vector \<Rightarrow> real vector \<Rightarrow> real" where
  "dot a b = vec_x a * vec_x b + vec_y a * vec_y b"

definition magnitude :: "real vector \<Rightarrow> real" where
  "magnitude v = sqrt (vec_x v * vec_x v + vec_y v * vec_y v)"

text \<open>\<open>Vector.normalise\<close> returns the zero vector for a vector of magnitude zero.\<close>

definition normalise :: "real vector \<Rightarrow> real vector" where
  "normalise v =
     (let m = magnitude v in
      if m = 0 then \<lparr>vec_x = 0, vec_y = 0\<rparr>
      else \<lparr>vec_x = vec_x v / m, vec_y = vec_y v / m\<rparr>)"

text \<open>
  The arithmetic of the JavaScript engine, and what the handlers need to know of
  the matter-js release in use: the four operations on numbers, the number that
  \<open>null\<close> is read as (\<open>ToNumber(null)\<close>, which is 0), \<open>Number.isFinite\<close>, the
  constant \<open>Body._baseDelta\<close> (1000 / 60), and whether \<open>Body.setVelocity\<close> derives
  the velocity it stores from the positions (matter-js from 0.19 on) or stores the
  vector it is given (before 0.19). The sources of the game do not say which
  release it runs on, so every statement is made for both.
\<close>

record 'n engine =
  num_add :: "'n \<Rightarrow> 'n \<Rightarrow> 'n"
  num_sub :: "'n \<Rightarrow> 'n \<Rightarrow> 'n"
  num_mul :: "'n \<Rightarrow> 'n \<Rightarrow> 'n"
  num_div :: "'n \<Rightarrow> 'n \<Rightarrow> 'n"
  num_zero :: 'n
  is_finite :: "'n \<Rightarrow> bool"
  baseDelta :: 'n
  derives_velocity :: bool

text \<open>
  \<open>Body.setPosition(body, position)\<close> does not store the vector it is given: it
  computes \<open>delta = Vector.sub(position, body.position)\<close> and adds \<open>delta\<close> to
  \<open>body.positionPrev\<close> and to \<open>body.position\<close>. It leaves the velocity as it is.
  (The vertices and bounds it also moves are not modelled.)
\<close>

definition setPosition :: "'n engine \<Rightarrow> 'n body \<Rightarrow> 'n vector \<Rightarrow> 'n body" where
  "setPosition eng b p =
     (let delta = \<lparr>vec_x = num_sub eng (vec_x p) (vec_x (position b)),
                   vec_y = num_sub eng (vec_y p) (vec_y (position b))\<rparr>
      in b\<lparr>positionPrev := \<lparr>vec_x = num_add eng (vec_x (positionPrev b)) (vec_x delta),
                              vec_y = num_add eng (vec_y (positionPrev b)) (vec_y delta)\<rparr>,
           position := \<lparr>vec_x = num_add eng (vec_x (position b)) (vec_x delta),
                          vec_y = num_add eng (vec_y (position b)) (vec_y delta)\<rparr>\<rparr>)"

text \<open>
  \<open>Body.setVelocity(body, velocity)\<close>. Before 0.19:
  \<open>positionPrev = position - velocity\<close> and \<open>body.velocity = velocity\<close>. From 0.19 on:
  \<open>timeScale = body.deltaTime / Body._baseDelta\<close>,
  \<open>positionPrev = position - velocity * timeScale\<close> and
  \<open>body.velocity = (position - positionPrev) / timeScale\<close>.
  (\<open>body.speed\<close> is not modelled.)
\<close>

definition setVelocity :: "'n engine \<Rightarrow> 'n body \<Rightarrow> 'n vector \<Rightarrow> 'n body" where
  "setVelocity eng b v =
     (if derives_velocity eng then
        (let timeScale = num_div eng (deltaTime b) (baseDelta eng);
             prev = \<lparr>vec_x = num_sub eng (vec_x (position b)) (num_mul eng (vec_x v) timeScale),
                    vec_y = num_sub eng (vec_y (position b)) (num_mul eng (vec_y v) timeScale)\<rparr>
         in b\<lparr>positionPrev := prev,
              velocity := \<lparr>vec_x = num_div eng (num_sub eng (vec_x (position b)) (vec_x prev)) timeScale,
                             vec_y = num_div eng (num_sub eng (vec_y (position b)) (vec_y prev)) timeScale\<rparr>\<rparr>)
      else
        b\<lparr>positionPrev := \<lparr>vec_x = num_sub eng (vec_x (position b)) (vec_x v),
                               vec_y = num_sub eng (vec_y (position b)) (vec_y v)\<rparr>,
          velocity := v\<rparr>)"

text \<open>
  The two results by coordinate: where \<open>Body.setPosition\<close> puts a coordinate that is
  at \<open>p\<close> when told \<open>q\<close>, and the velocity component \<open>Body.setVelocity\<close> stores for a
  body at \<open>p\<close> with time scale \<open>ts\<close> when told \<open>v\<close>.
\<close>

definition moved :: "'n engine \<Rightarrow> 'n \<Rightarrow> 'n \<Rightarrow> 'n" where
  "moved eng p q = num_add eng p (num_sub eng q p)"

definition stored :: "'n engine \<Rightarrow> 'n \<Rightarrow> 'n \<Rightarrow> 'n \<Rightarrow> 'n" where
  "stored eng ts p v =
     (if derives_velocity eng
      then num_div eng (num_sub eng p (num_sub eng p (num_mul eng v ts))) ts
      else v)"

text \<open>
  \<open>Body.applyForce(body, point, f)\<close> accumulates the force and the torque it has about
  the centre of the body. Position and velocity stay as they are until the engine
  integrates.
\<close>

definition applyForce :: "real body \<Rightarrow> real vector \<Rightarrow> real vector \<Rightarrow> real body" where
  "applyForce b p f =
     (let off = sub p (position b) in
      b\<lparr>force := \<lparr>vec_x = vec_x (force b) + vec_x f, vec_y = vec_y (force b) + vec_y f\<rparr>,
        torque := torque b + (vec_x off * vec_y f - vec_y off * vec_x f)\<rparr>)"

section \<open>Messages on the socket\<close>

text \<open>
  \<open>newSocket.emit('move', {position, velocity})\<close> and
  \<open>newSocket.emit('kick', {ballPosition, ballVelocity})\<close>: the two payloads carry
  exactly these fields. A message as emitted holds numbers (\<open>'n message\<close>). On the
  wire socket.io writes it as JSON, which has no \<open>NaN\<close> and no \<open>Infinity\<close>:
  \<open>JSON.stringify\<close> writes \<open>null\<close> for a number that is not finite. A message as
  received therefore holds, in each component, a number or \<open>null\<close>
  (\<open>'n option message\<close>, \<open>None\<close> for \<open>null\<close>); these are the values the clients of
  this repository put on the wire.
\<close>

record 'n move_data =
  data_position :: "'n vector"
  data_velocity :: "'n vector"

record 'n kick_data =
  ballPosition :: "'n vector"
  ballVelocity :: "'n vector"

datatype 'n message = Move "'n move_data" | Kick "'n kick_data"

fun event_name :: "'n message \<Rightarrow> string" where
  "event_name (Move d) = ''move''"
| "event_name (Kick d) = ''kick''"

text \<open>What JSON makes of a number, of a vector and of the two payloads.\<close>

definition encode_number :: "'n engine \<Rightarrow> 'n \<Rightarrow> 'n option" where
  "encode_number eng n = (if is_finite eng n then Some n else None)"

definition encode_vector :: "'n engine \<Rightarrow> 'n vector \<Rightarrow> 'n option vector" where
  "encode_vector eng v =
     \<lparr>vec_x = encode_number eng (vec_x v), vec_y = encode_number eng (vec_y v)\<rparr>"

definition encode_move :: "'n engine \<Rightarrow> 'n move_data \<Rightarrow> 'n option move_data" where
  "encode_move eng d =
     \<lparr>data_position = encode_vector eng (data_position d),
      data_velocity = encode_vector eng (data_velocity d)\<rparr>"

definition encode_kick :: "'n engine \<Rightarrow> 'n kick_data \<Rightarrow> 'n option kick_data" where
  "encode_kick eng d =
     \<lparr>ballPosition = encode_vector eng (ballPosition d),
      ballVelocity = encode_vector eng (ballVelocity d)\<rparr>"

text \<open>The arithmetic of matter-js reads a received component with \<open>ToNumber\<close>: a
  number is itself, \<open>null\<close> is 0.\<close>

definition to_number :: "'n engine \<Rightarrow> 'n option \<Rightarrow> 'n" where
  "to_number eng w = (case w of Some n \<Rightarrow> n | None \<Rightarrow> num_zero eng)"

definition to_numbers :: "'n engine \<Rightarrow> 'n option vector \<Rightarrow> 'n vector" where
  "to_numbers eng v = \<lparr>vec_x = to_number eng (vec_x v), vec_y = to_number eng (vec_y v)\<rparr>"

record scoreboard =
  player1 :: int
  player2 :: int

text \<open>What every variant of the game component owns: the ball, the score, and the
  messages it has emitted on its socket so far (oldest first).\<close>

record 'n pitch =
  ball :: "'n body"
  score :: scoreboard
  emitted :: "'n message list"

section \<open>The two-player variant (the second component of Game.tsx)\<close>

record 'n duel = "'n pitch" +
  player :: "'n body"
  aiPlayer :: "'n body"

text \<open>The handlers registered with \<open>newSocket.on('move', ...)\<close> and
  \<open>newSocket.on('kick', ...)\<close>. They pass what they received to the library, whose
  subtractions and products read each component as a number. (matter-js before
  0.19 keeps the received velocity itself; a \<open>null\<close> kept there reads as 0 in every
  later operation, and the model keeps the 0.)\<close>

definition on_move :: "'n engine \<Rightarrow> 'n option move_data \<Rightarrow> 'n duel \<Rightarrow> 'n duel" where
  "on_move eng d s =
     s\<lparr>player := setVelocity eng
                    (setPosition eng (player s) (to_numbers eng (data_position d)))
                    (to_numbers eng (data_velocity d))\<rparr>"

definition on_kick :: "'n engine \<Rightarrow> 'n option kick_data \<Rightarrow> 'n duel \<Rightarrow> 'n duel" where
  "on_kick eng d s =
     s\<lparr>ball := setVelocity eng
                  (setPosition eng (ball s) (to_numbers eng (ballPosition d)))
                  (to_numbers eng (ballVelocity d))\<rparr>"

fun receive :: "'n engine \<Rightarrow> 'n option message \<Rightarrow> 'n duel \<Rightarrow> 'n duel" where
  "receive eng (Move d) s = on_move eng d s"
| "receive eng (Kick d) s = on_kick eng d s"

text \<open>\<open>kickBall(kicker, ball)\<close> of this variant reads the kicker's position only.\<close>

definition kickBall_duel :: "real body \<Rightarrow> real duel \<Rightarrow> real duel" where
  "kickBall_duel kicker s =
     (let kickForce = 0.02;
          distance = magnitude (sub (position (ball s)) (position kicker));
          kickRange = 50
      in if distance < kickRange then
           (let direction = normalise (sub (position (ball s)) (position kicker));
                f = mult direction kickForce;
                b = applyForce (ball s) (position (ball s)) f
            in s\<lparr>ball := b,
                 emitted := emitted s @
                   [Kick \<lparr>ballPosition = position b, ballVelocity = velocity b\<rparr>]\<rparr>)
         else s)"

text \<open>\<open>handleKeyDown\<close>: the switch on \<open>event.key\<close>, then the \<open>'move'\<close> emit that
  follows it for every key.\<close>

definition handleKeyDown_duel :: "string \<Rightarrow> real duel \<Rightarrow> real duel" where
  "handleKeyDown_duel key s =
     (let f = 0.001;
          push = (\<lambda>v. s\<lparr>player := applyForce (player s) (position (player s)) v\<rparr>);
          s1 = (if key = ''ArrowUp'' then push \<lparr>vec_x = 0, vec_y = - f\<rparr>
                else if key = ''ArrowDown'' then push \<lparr>vec_x = 0, vec_y = f\<rparr>
                else if key = ''ArrowLeft'' then push \<lparr>vec_x = - f, vec_y = 0\<rparr>
                else if key = ''ArrowRight'' then push \<lparr>vec_x = f, vec_y = 0\<rparr>
                else if key = '' '' then kickBall_duel (player s) s
                else s)
      in s1\<lparr>emitted := emitted s1 @
           [Move \<lparr>data_position = position (player s1),
                  data_velocity = velocity (player s1)\<rparr>]\<rparr>)"

text \<open>\<open>moveAIPlayer\<close>, the only listener of this variant on the engine's
  \<open>beforeUpdate\<close>; \<open>width\<close> and \<open>height\<close> are the window's size.\<close>

definition moveAIPlayer :: "real \<Rightarrow> real \<Rightarrow> real duel \<Rightarrow> real duel" where
  "moveAIPlayer width height s =
     (let forceMagnitude = 0.0005;
          toBall = sub (position (ball s)) (position (aiPlayer s));
          toGoal = sub \<lparr>vec_x = 0, vec_y = height / 2\<rparr> (position (aiPlayer s));
          f = (if vec_x (position (ball s)) > width / 2
               then mult (normalise toBall) forceMagnitude
               else mult (normalise toGoal) forceMagnitude);
          s1 = s\<lparr>aiPlayer := applyForce (aiPlayer s) (position (aiPlayer s)) f\<rparr>;
          kickRange = 50
      in if magnitude (sub (position (ball s1)) (position (aiPlayer s1))) < kickRange
         then kickBall_duel (aiPlayer s1) s1
         else s1)"

section \<open>The relay server (server.js)\<close>

text \<open>
  The connection handler registers a listener for \<open>'move'\<close> (and one for
  \<open>'disconnect'\<close>, which only logs). \<open>socket.broadcast.emit\<close> delivers to every
  connected socket but the sender. The result lists the deliveries as
  (recipient, message).
\<close>

definition relay :: "nat list \<Rightarrow> nat \<Rightarrow> 'n message \<Rightarrow> (nat \<times> 'n message) list" where
  "relay sockets sender m =
     (if event_name m = ''move''
      then map (\<lambda>r. (r, m)) (filter (\<lambda>r. r \<noteq> sender) sockets)
      else [])"

section \<open>The power-up variant (the first component of Game.tsx)\<close>

definition TEAM_SIZE :: nat where
  "TEAM_SIZE = 13"

definition GAME_DURATION :: int where
  "GAME_DURATION = 120"

definition WINNING_SCORE :: int where
  "WINNING_SCORE = 5"

definition POWERUP_DURATION :: real where
  "POWERUP_DURATION = 10"

datatype GamePhase = START | PLAYING | END

datatype PowerUpType = SPEED_BOOST | SUPER_KICK | MAGNET_BALL

record PowerUp =
  powerup_type :: PowerUpType
  powerup_body :: "real body"

record keys =
  ArrowUp :: bool
  ArrowDown :: bool
  ArrowLeft :: bool
  ArrowRight :: bool

text \<open>The \<open>play()\<close> calls on the three \<open>Audio\<close> objects, logged in order.\<close>

datatype sound = KickSound | GoalSound | PowerUpSound

text \<open>A reference to a player body: \<open>team1[i]\<close> or \<open>team2[i]\<close>. The code compares
  such references with \<open>===\<close>; \<open>Team1 0\<close> is the player on the keyboard.\<close>

datatype player_ref = Team1 nat | Team2 nat

text \<open>The bodies a collision pair can name.\<close>

datatype body_id = Ball | LeftGoal | RightGoal | Wall nat | Player player_ref | Sensor nat

text \<open>
  The state of the component and of the effect it mounts while the phase is
  \<open>PLAYING\<close>. \<open>gamePhase\<close>, \<open>score\<close> and \<open>timeLeft\<close> are React state.
  The effect's dependency list is \<open>[gamePhase]\<close>, so its callbacks keep reading the
  \<open>score\<close> binding of the render that mounted it: \<open>seen_score\<close>.
  \<open>mounted\<close> says that the engine runs, the listeners are attached and the socket is
  connected; the two interval flags say that the interval is set and not cleared.
  The dynamic bodies of the world are those of \<open>activePowerUps\<close>;
  \<open>goalFlashes\<close> counts the white overlays shown so far (a timeout takes each
  out of the world half a second later).
\<close>

record arena = "real pitch" +
  gamePhase :: GamePhase
  timeLeft :: int
  seen_score :: scoreboard
  mounted :: bool
  gameInterval :: bool
  powerUpInterval :: bool
  team1 :: "real body list"
  team2 :: "real body list"
  keys :: keys
  activePowerUps :: "PowerUp list"
  playerPowerUp :: "PowerUpType option"
  powerUpTimeLeft :: real
  sounds :: "sound list"
  goalFlashes :: nat

text \<open>Reading and writing a player through its reference. Every reference the code
  forms is to a member of a team: the effect makes \<open>TEAM_SIZE\<close> bodies for each, and
  the loops run over the teams themselves.\<close>

fun body_of :: "arena \<Rightarrow> player_ref \<Rightarrow> real body" where
  "body_of s (Team1 i) = team1 s ! i"
| "body_of s (Team2 i) = team2 s ! i"

fun set_body :: "player_ref \<Rightarrow> real body \<Rightarrow> arena \<Rightarrow> arena" where
  "set_body (Team1 i) b s = s\<lparr>team1 := (team1 s)[i := b]\<rparr>"
| "set_body (Team2 i) b s = s\<lparr>team2 := (team2 s)[i := b]\<rparr>"

text \<open>\<open>createPlayer(x, y, color)\<close> and the ball: a body at rest, as \<open>Body.create\<close>
  makes it.\<close>

definition createBody :: "real \<Rightarrow> real \<Rightarrow> real body" where
  "createBody px py =
     \<lparr>position = \<lparr>vec_x = px, vec_y = py\<rparr>, positionPrev = \<lparr>vec_x = px, vec_y = py\<rparr>,
      velocity = zero_vector, force = zero_vector, torque = 0, deltaTime = 1000 / 60\<rparr>"

definition movePlayer :: "real engine \<Rightarrow> player_ref \<Rightarrow> real vector \<Rightarrow> arena \<Rightarrow> arena" where
  "movePlayer eng p direction s =
     (let baseSpeed = 5;
          speed = (if p = Team1 0 \<and> playerPowerUp s = Some SPEED_BOOST
                   then baseSpeed * 1.5 else baseSpeed);
          v = mult (normalise direction) speed
      in set_body p (setVelocity eng (body_of s p) v) s)"

definition kickBall :: "player_ref \<Rightarrow> arena \<Rightarrow> arena" where
  "kickBall kicker s =
     (let baseKickForce = 0.03;
          kickForce = (if kicker = Team1 0 \<and> playerPowerUp s = Some SUPER_KICK
                       then baseKickForce * 2 else baseKickForce);
          distance = magnitude (sub (position (ball s)) (position (body_of s kicker)));
          kickRange = 50
      in if distance < kickRange then
           (let direction = normalise (sub (position (ball s)) (position (body_of s kicker)));
                f = mult direction kickForce;
                b = applyForce (ball s) (position (ball s)) f
            in s\<lparr>ball := b,
                 sounds := sounds s @ [KickSound],
                 emitted := emitted s @
                   [Kick \<lparr>ballPosition = position b, ballVelocity = velocity b\<rparr>]\<rparr>)
         else s)"

text \<open>\<open>handleKeyDown\<close>, \<open>handleKeyUp\<close> (\<open>event.key\<close>) and \<open>handleSpacebar\<close>
  (\<open>event.code\<close>).\<close>

definition set_key :: "string \<Rightarrow> bool \<Rightarrow> keys \<Rightarrow> keys" where
  "set_key k v ks =
     (if k = ''ArrowUp'' then ks\<lparr>ArrowUp := v\<rparr>
      else if k = ''ArrowDown'' then ks\<lparr>ArrowDown := v\<rparr>
      else if k = ''ArrowLeft'' then ks\<lparr>ArrowLeft := v\<rparr>
      else if k = ''ArrowRight'' then ks\<lparr>ArrowRight := v\<rparr>
      else ks)"

definition handleKeyDown :: "string \<Rightarrow> arena \<Rightarrow> arena" where
  "handleKeyDown k s = s\<lparr>keys := set_key k True (keys s)\<rparr>"

definition handleKeyUp :: "string \<Rightarrow> arena \<Rightarrow> arena" where
  "handleKeyUp k s = s\<lparr>keys := set_key k False (keys s)\<rparr>"

definition handleSpacebar :: "string \<Rightarrow> arena \<Rightarrow> arena" where
  "handleSpacebar code s = (if code = ''Space'' then kickBall (Team1 0) s else s)"

text \<open>The callback of \<open>activePowerUps.filter\<close>, run over the list in order:
  a power-up the player touches is taken and dropped from the list.
  \<open>collides\<close> stands for \<open>Matter.Collision.collides\<close>.\<close>

fun collect :: "(real body \<Rightarrow> real body \<Rightarrow> bool) \<Rightarrow> PowerUp list \<Rightarrow> arena \<Rightarrow> PowerUp list \<times> arena" where
  "collect collides [] s = ([], s)"
| "collect collides (p # ps) s =
     (if collides (team1 s ! 0) (powerup_body p)
      then collect collides ps
             (s\<lparr>playerPowerUp := Some (powerup_type p),
                powerUpTimeLeft := POWERUP_DURATION,
                sounds := sounds s @ [PowerUpSound]\<rparr>)
      else (let (kept, s') = collect collides ps s in (p # kept, s')))"

text \<open>One player of \<open>moveAI(team, opposingGoal)\<close>; \<open>goal\<close> is the position of the
  opposing goal.\<close>

definition moveAI_player :: "real engine \<Rightarrow> real vector \<Rightarrow> player_ref \<Rightarrow> arena \<Rightarrow> arena" where
  "moveAI_player eng goal p s =
     (let toBall = sub (position (ball s)) (position (body_of s p));
          s1 = movePlayer eng p toBall s;
          kickRange = 50
      in if magnitude toBall < kickRange then
           (let toGoal = sub goal (position (body_of s1 p))
            in if dot toGoal toBall > 0 then kickBall p s1 else s1)
         else s1)"

definition moveAI :: "real engine \<Rightarrow> player_ref list \<Rightarrow> real vector \<Rightarrow> arena \<Rightarrow> arena" where
  "moveAI eng team goal s = fold (moveAI_player eng goal) team s"

text \<open>The last block of the \<open>beforeUpdate\<close> listener: "Keep the ball within the
  field". The second pair of tests reads the ball as the first pair left it.\<close>

definition keepBallInField :: "real engine \<Rightarrow> real \<Rightarrow> real \<Rightarrow> real body \<Rightarrow> real body" where
  "keepBallInField eng width height b =
     (let ballRadius = 15;
          minX = ballRadius;
          maxX = width - ballRadius;
          minY = ballRadius;
          maxY = height - ballRadius;
          b1 = (if vec_x (position b) < minX then
                  setVelocity eng (setPosition eng b \<lparr>vec_x = minX, vec_y = vec_y (position b)\<rparr>)
                    \<lparr>vec_x = - vec_x (velocity b) * 0.5, vec_y = vec_y (velocity b)\<rparr>
                else if vec_x (position b) > maxX then
                  setVelocity eng (setPosition eng b \<lparr>vec_x = maxX, vec_y = vec_y (position b)\<rparr>)
                    \<lparr>vec_x = - vec_x (velocity b) * 0.5, vec_y = vec_y (velocity b)\<rparr>
                else b)
      in if vec_y (position b1) < minY then
           setVelocity eng (setPosition eng b1 \<lparr>vec_x = vec_x (position b1), vec_y = minY\<rparr>)
             \<lparr>vec_x = vec_x (velocity b1), vec_y = - vec_y (velocity b1) * 0.5\<rparr>
         else if vec_y (position b1) > maxY then
           setVelocity eng (setPosition eng b1 \<lparr>vec_x = vec_x (position b1), vec_y = maxY\<rparr>)
             \<lparr>vec_x = vec_x (velocity b1), vec_y = - vec_y (velocity b1) * 0.5\<rparr>
         else b1)"

text \<open>The positions of the two goal sensors.\<close>

definition leftGoal_position :: "real \<Rightarrow> real \<Rightarrow> real vector" where
  "leftGoal_position width height = \<lparr>vec_x = 20 / 2, vec_y = height / 2\<rparr>"

definition rightGoal_position :: "real \<Rightarrow> real \<Rightarrow> real vector" where
  "rightGoal_position width height = \<lparr>vec_x = width - 20 / 2, vec_y = height / 2\<rparr>"

text \<open>The \<open>beforeUpdate\<close> listener, block by block.\<close>

definition move_user :: "real engine \<Rightarrow> arena \<Rightarrow> arena" where
  "move_user eng s =
     (let dy = (if ArrowUp (keys s) then - 1 else 0) + (if ArrowDown (keys s) then 1 else 0);
          dx = (if ArrowLeft (keys s) then - 1 else 0) + (if ArrowRight (keys s) then 1 else 0)
      in if dx \<noteq> 0 \<or> dy \<noteq> 0
         then movePlayer eng (Team1 0) \<lparr>vec_x = dx, vec_y = dy\<rparr> s
         else set_body (Team1 0) (setVelocity eng (body_of s (Team1 0)) zero_vector) s)"

definition magnet :: "arena \<Rightarrow> arena" where
  "magnet s =
     (if playerPowerUp s = Some MAGNET_BALL then
        (let toBall = sub (position (ball s)) (position (team1 s ! 0));
             distance = magnitude toBall
         in if distance < 200
            then s\<lparr>ball := applyForce (ball s) (position (ball s))
                             (mult (normalise toBall) (- 0.001 * (200 - distance)))\<rparr>
            else s)
      else s)"

definition collect_powerUps :: "(real body \<Rightarrow> real body \<Rightarrow> bool) \<Rightarrow> arena \<Rightarrow> arena" where
  "collect_powerUps collides s =
     (let (kept, s') = collect collides (activePowerUps s) s
      in s'\<lparr>activePowerUps := kept\<rparr>)"

definition powerUp_timer :: "arena \<Rightarrow> arena" where
  "powerUp_timer s =
     (if powerUpTimeLeft s > 0 then
        (let t = powerUpTimeLeft s - 1 / 60;
             s1 = s\<lparr>powerUpTimeLeft := t\<rparr>
         in if t \<le> 0 then s1\<lparr>playerPowerUp := None\<rparr> else s1)
      else s)"

definition beforeUpdate :: "real engine \<Rightarrow> (real body \<Rightarrow> real body \<Rightarrow> bool) \<Rightarrow> real \<Rightarrow> real \<Rightarrow> arena \<Rightarrow> arena" where
  "beforeUpdate eng collides width height s =
     (let s1 = move_user eng s;
          s2 = magnet s1;
          s3 = collect_powerUps collides s2;
          s4 = powerUp_timer s3;
          s5 = moveAI eng (map Team2 [0 ..< length (team2 s4)]) (leftGoal_position width height) s4;
          s6 = moveAI eng (map Team1 [1 ..< length (team1 s5)]) (rightGoal_position width height) s5
      in s6\<lparr>ball := keepBallInField eng width height (ball s6)\<rparr>)"

text \<open>\<open>resetPositions\<close>.\<close>

definition line_up :: "real engine \<Rightarrow> real \<Rightarrow> real \<Rightarrow> real body list \<Rightarrow> real body list" where
  "line_up eng px height team =
     map (\<lambda>(i, p). setVelocity eng
            (setPosition eng p \<lparr>vec_x = px, vec_y = real (i + 1) * height / real (TEAM_SIZE + 1)\<rparr>)
            zero_vector)
         (enumerate 0 team)"

definition resetPositions :: "real engine \<Rightarrow> real \<Rightarrow> real \<Rightarrow> arena \<Rightarrow> arena" where
  "resetPositions eng width height s =
     s\<lparr>ball := setVelocity eng
                  (setPosition eng (ball s) \<lparr>vec_x = width / 2, vec_y = height / 2\<rparr>)
                  zero_vector,
       team1 := line_up eng (width / 4) height (team1 s),
       team2 := line_up eng (3 * width / 4) height (team2 s)\<rparr>"

text \<open>The \<open>collisionStart\<close> listener: the body of \<open>event.pairs.forEach\<close> for one
  pair, and the loop over the pairs.\<close>

definition collisionPair :: "real engine \<Rightarrow> real \<Rightarrow> real \<Rightarrow> body_id \<times> body_id \<Rightarrow> arena \<Rightarrow> arena" where
  "collisionPair eng width height pair s =
     (let bodyA = fst pair; bodyB = snd pair
      in if bodyA = Ball \<or> bodyB = Ball then
           (let goal = (if bodyA = Ball then bodyB else bodyA)
            in if goal = LeftGoal \<or> goal = RightGoal then
                 (let s1 = s\<lparr>sounds := sounds s @ [GoalSound],
                              goalFlashes := goalFlashes s + 1\<rparr>;
                      s2 = (if goal = LeftGoal
                            then s1\<lparr>score := (score s1)\<lparr>player2 := player2 (score s1) + 1\<rparr>\<rparr>
                            else s1\<lparr>score := (score s1)\<lparr>player1 := player1 (score s1) + 1\<rparr>\<rparr>)
                  in resetPositions eng width height s2)
               else s)
         else s)"

definition collisionStart :: "real engine \<Rightarrow> real \<Rightarrow> real \<Rightarrow> (body_id \<times> body_id) list \<Rightarrow> arena \<Rightarrow> arena" where
  "collisionStart eng width height pairs s = fold (collisionPair eng width height) pairs s"

text \<open>
  The effect of \<open>useEffect(..., [gamePhase])\<close>: it returns at once unless the phase is
  \<open>PLAYING\<close>; otherwise it connects a socket, builds the world and sets the two
  intervals. Its callbacks close over the \<open>score\<close> of the render it runs in.
  \<open>cleanup\<close> is the function the effect returns.
\<close>

definition effect :: "real \<Rightarrow> real \<Rightarrow> arena \<Rightarrow> arena" where
  "effect width height s =
     (if gamePhase s \<noteq> PLAYING then s
      else s\<lparr>ball := createBody (width / 2) (height / 2),
             seen_score := score s,
             mounted := True,
             gameInterval := True,
             powerUpInterval := True,
             team1 := map (\<lambda>i. createBody (width / 4)
                              (real (i + 1) * height / real (TEAM_SIZE + 1))) [0 ..< TEAM_SIZE],
             team2 := map (\<lambda>i. createBody (3 * width / 4)
                              (real (i + 1) * height / real (TEAM_SIZE + 1))) [0 ..< TEAM_SIZE],
             keys := \<lparr>ArrowUp = False, ArrowDown = False, ArrowLeft = False, ArrowRight = False\<rparr>,
             activePowerUps := [],
             playerPowerUp := None,
             powerUpTimeLeft := 0,
             goalFlashes := 0\<rparr>)"

definition cleanup :: "arena \<Rightarrow> arena" where
  "cleanup s =
     (if mounted s
      then s\<lparr>mounted := False, gameInterval := False, powerUpInterval := False\<rparr>
      else s)"

text \<open>A render after state updates: React runs the cleanup and the effect again only
  when \<open>gamePhase\<close> differs from the one of the render before.\<close>

definition rerender :: "real \<Rightarrow> real \<Rightarrow> arena \<Rightarrow> arena \<Rightarrow> arena" where
  "rerender width height before s =
     (if gamePhase s \<noteq> gamePhase before then effect width height (cleanup s) else s)"

definition startGame :: "real \<Rightarrow> real \<Rightarrow> arena \<Rightarrow> arena" where
  "startGame width height s =
     rerender width height s
       (s\<lparr>gamePhase := PLAYING,
          score := \<lparr>player1 = 0, player2 = 0\<rparr>,
          timeLeft := GAME_DURATION\<rparr>)"

definition endGame :: "arena \<Rightarrow> arena" where
  "endGame s = s\<lparr>gamePhase := END\<rparr>"

text \<open>One firing of \<open>gameInterval\<close> (every second): the updater given to
  \<open>setTimeLeft\<close>, which reads the \<open>score\<close> of the effect's closure.\<close>

definition gameInterval_tick :: "real \<Rightarrow> real \<Rightarrow> arena \<Rightarrow> arena" where
  "gameInterval_tick width height s =
     (if \<not> gameInterval s then s
      else if timeLeft s \<le> 0
              \<or> max (player1 (seen_score s)) (player2 (seen_score s)) \<ge> WINNING_SCORE
      then rerender width height s
             ((endGame (s\<lparr>gameInterval := False, powerUpInterval := False\<rparr>))\<lparr>timeLeft := 0\<rparr>)
      else s\<lparr>timeLeft := timeLeft s - 1\<rparr>)"

text \<open>\<open>spawnPowerUp\<close>, fired by \<open>powerUpInterval\<close>; \<open>p\<close> is what \<open>createPowerUp\<close>
  drew at random.\<close>

definition spawnPowerUp :: "PowerUp \<Rightarrow> arena \<Rightarrow> arena" where
  "spawnPowerUp p s =
     (if powerUpInterval s then s\<lparr>activePowerUps := activePowerUps s @ [p]\<rparr> else s)"

text \<open>What can happen to the component. The engine's events and the window's key
  events reach their listeners only while the effect is mounted. \<open>eng\<close> is the
  arithmetic of \<open>Body.setPosition\<close> and \<open>Body.setVelocity\<close>.\<close>

datatype event =
    StartClicked
  | GameIntervalFired
  | PowerUpIntervalFired PowerUp
  | KeyDown string string
  | KeyUp string
  | BeforeUpdate
  | CollisionStart "(body_id \<times> body_id) list"

fun handle :: "real engine \<Rightarrow> (real body \<Rightarrow> real body \<Rightarrow> bool) \<Rightarrow> real \<Rightarrow> real \<Rightarrow> event \<Rightarrow> arena \<Rightarrow> arena" where
  "handle eng c w h StartClicked s = (if gamePhase s = PLAYING then s else startGame w h s)"
| "handle eng c w h GameIntervalFired s = gameInterval_tick w h s"
| "handle eng c w h (PowerUpIntervalFired p) s = spawnPowerUp p s"
| "handle eng c w h (KeyDown k code) s =
     (if mounted s then handleSpacebar code (handleKeyDown k s) else s)"
| "handle eng c w h (KeyUp k) s = (if mounted s then handleKeyUp k s else s)"
| "handle eng c w h BeforeUpdate s = (if mounted s then beforeUpdate eng c w h s else s)"
| "handle eng c w h (CollisionStart pairs) s =
     (if mounted s then collisionStart eng w h pairs s else s)"

definition run :: "real engine \<Rightarrow> (real body \<Rightarrow> real body \<Rightarrow> bool) \<Rightarrow> real \<Rightarrow> real \<Rightarrow> event list \<Rightarrow> arena \<Rightarrow> arena" where
  "run eng c w h evs s = fold (handle eng c w h) evs s"

text \<open>The component as first rendered: phase \<open>START\<close>, nothing mounted.\<close>

definition initial :: arena where
  "initial =
     \<lparr>ball = createBody 0 0, score = \<lparr>player1 = 0, player2 = 0\<rparr>, emitted = [],
      gamePhase = START, timeLeft = GAME_DURATION,
      seen_score = \<lparr>player1 = 0, player2 = 0\<rparr>,
      mounted = False, gameInterval = False, powerUpInterval = False,
      team1 = [], team2 = [],
      keys = \<lparr>ArrowUp = False, ArrowDown = False, ArrowLeft = False, ArrowRight = False\<rparr>,
      activePowerUps = [], playerPowerUp = None, powerUpTimeLeft = 0,
      sounds = [], goalFlashes = 0\<rparr>"

section \<open>JavaScript numbers\<close>

text \<open>
  A JavaScript number is a finite value, \<open>NaN\<close> or one of the two infinities;
  \<open>isFinite\<close> is \<open>Number.isFinite\<close>. The four operations follow IEEE 754 on the
  values that are not finite; a finite result is rounded by \<open>rnd\<close>, the rounding to
  the nearest double (which gives an infinity on overflow). The two zeros are
  not told apart.
\<close>

datatype jsnum = Finite real | NaN | PosInfinity | NegInfinity

fun isFinite :: "jsnum \<Rightarrow> bool" where
  "isFinite (Finite r) = True"
| "isFinite NaN = False"
| "isFinite PosInfinity = False"
| "isFinite NegInfinity = False"

fun js_neg :: "jsnum \<Rightarrow> jsnum" where
  "js_neg (Finite x) = Finite (- x)"
| "js_neg NaN = NaN"
| "js_neg PosInfinity = NegInfinity"
| "js_neg NegInfinity = PosInfinity"

fun js_add :: "(real \<Rightarrow> jsnum) \<Rightarrow> jsnum \<Rightarrow> jsnum \<Rightarrow> jsnum" where
  "js_add rnd NaN b = NaN"
| "js_add rnd a NaN = NaN"
| "js_add rnd PosInfinity NegInfinity = NaN"
| "js_add rnd NegInfinity PosInfinity = NaN"
| "js_add rnd PosInfinity b = PosInfinity"
| "js_add rnd a PosInfinity = PosInfinity"
| "js_add rnd NegInfinity b = NegInfinity"
| "js_add rnd a NegInfinity = NegInfinity"
| "js_add rnd (Finite x) (Finite y) = rnd (x + y)"

definition js_sub :: "(real \<Rightarrow> jsnum) \<Rightarrow> jsnum \<Rightarrow> jsnum \<Rightarrow> jsnum" where
  "js_sub rnd a b = js_add rnd a (js_neg b)"

text \<open>The sign of a number that is not \<open>NaN\<close>: negative or not.\<close>

fun js_negative :: "jsnum \<Rightarrow> bool" where
  "js_negative (Finite x) = (x < 0)"
| "js_negative NaN = False"
| "js_negative PosInfinity = False"
| "js_negative NegInfinity = True"

definition js_infinity :: "bool \<Rightarrow> jsnum" where
  "js_infinity negative = (if negative then NegInfinity else PosInfinity)"

fun js_mul :: "(real \<Rightarrow> jsnum) \<Rightarrow> jsnum \<Rightarrow> jsnum \<Rightarrow> jsnum" where
  "js_mul rnd NaN b = NaN"
| "js_mul rnd a NaN = NaN"
| "js_mul rnd (Finite x) (Finite y) = rnd (x * y)"
| "js_mul rnd (Finite x) b =
     (if x = 0 then NaN else js_infinity (js_negative (Finite x) \<noteq> js_negative b))"
| "js_mul rnd a (Finite y) =
     (if y = 0 then NaN else js_infinity (js_negative a \<noteq> js_negative (Finite y)))"
| "js_mul rnd a b = js_infinity (js_negative a \<noteq> js_negative b)"

fun js_div :: "(real \<Rightarrow> jsnum) \<Rightarrow> jsnum \<Rightarrow> jsnum \<Rightarrow> jsnum" where
  "js_div rnd NaN b = NaN"
| "js_div rnd a NaN = NaN"
| "js_div rnd (Finite x) (Finite y) =
     (if y = 0 then (if x = 0 then NaN else js_infinity (x < 0)) else rnd (x / y))"
| "js_div rnd (Finite x) b = Finite 0"
| "js_div rnd a (Finite y) = js_infinity (js_negative a \<noteq> js_negative (Finite y))"
| "js_div rnd a b = NaN"

definition js_engine :: "(real \<Rightarrow> jsnum) \<Rightarrow> bool \<Rightarrow> jsnum engine" where
  "js_engine rnd derives =
     \<lparr>num_add = js_add rnd, num_sub = js_sub rnd, num_mul = js_mul rnd, num_div = js_div rnd,
      num_zero = Finite 0, is_finite = isFinite,
      baseDelta = js_div rnd (Finite 1000) (Finite 60), derives_velocity = derives\<rparr>"

text \<open>The rounding that changes nothing. JavaScript's results are the exact ones
  wherever the exact result is a double, as it is for the sums and differences of
  small integers in the concrete inputs below.\<close>

definition unrounded :: "real \<Rightarrow> jsnum" where
  "unrounded r = Finite r"

text \<open>The arithmetic of the reals, for the concrete inputs of the components that
  are modelled on \<open>real\<close>: the same remark applies, and no divisor there is 0.\<close>

definition exact_engine :: "bool \<Rightarrow> real engine" where
  "exact_engine derives =
     \<lparr>num_add = (+), num_sub = (-), num_mul = (*), num_div = (/),
      num_zero = 0, is_finite = (\<lambda>n. True),
      baseDelta = 1000 / 60, derives_velocity = derives\<rparr>"

section \<open>The reconciliation rule in the specification's words\<close>

text \<open>
  The rule of the specification for a snapshot of a remote entity, to compare the
  handlers with: when the error is at most \<open>maxSnapDistance\<close> the local position
  moves toward the remote one by the factor \<open>alpha\<close>, otherwise it becomes the
  remote one.
\<close>

definition spec_blend_or_snap :: "real \<Rightarrow> real \<Rightarrow> real vector \<Rightarrow> real vector \<Rightarrow> real vector" where
  "spec_blend_or_snap alpha maxSnapDistance local remote =
     (let error = sub remote local
      in if magnitude error \<le> maxSnapDistance
         then \<lparr>vec_x = vec_x local + alpha * vec_x error,
               vec_y = vec_y local + alpha * vec_y error\<rparr>
         else remote)"

section \<open>Concrete states\<close>

text \<open>The two-player variant in an 800 by 600 window, as its effect builds it.\<close>

definition duel0 :: "real duel" where
  "duel0 = \<lparr>ball = createBody 400 300,
            score = \<lparr>player1 = 0, player2 = 0\<rparr>,
            emitted = [],
            player = createBody 200 300,
            aiPlayer = createBody 600 300\<rparr>"

text \<open>The same with JavaScript numbers.\<close>

definition js_body :: "real \<Rightarrow> real \<Rightarrow> jsnum body" where
  "js_body px py =
     \<lparr>position = \<lparr>vec_x = Finite px, vec_y = Finite py\<rparr>,
      positionPrev = \<lparr>vec_x = Finite px, vec_y = Finite py\<rparr>,
      velocity = \<lparr>vec_x = Finite 0, vec_y = Finite 0\<rparr>,
      force = \<lparr>vec_x = Finite 0, vec_y = Finite 0\<rparr>, torque = Finite 0,
      deltaTime = Finite (1000 / 60)\<rparr>"

definition js_duel0 :: "jsnum duel" where
  "js_duel0 = \<lparr>ball = js_body 400 300,
               score = \<lparr>player1 = 0, player2 = 0\<rparr>,
               emitted = [],
               player = js_body 200 300,
               aiPlayer = js_body 600 300\<rparr>"

text \<open>The power-up variant right after "Start Game" in an 800 by 600 window.\<close>

definition kickoff :: arena where
  "kickoff = startGame 800 600 initial"

definition never_collides :: "real body \<Rightarrow> real body \<Rightarrow> bool" where
  "never_collides a b = False"

text \<open>A ball that has left the field through its lower left corner.\<close>

definition stray_ball :: "real body" where
  "stray_ball =
     \<lparr>position = \<lparr>vec_x = 5, vec_y = 700\<rparr>, positionPrev = \<lparr>vec_x = 3, vec_y = 704\<rparr>,
      velocity = \<lparr>vec_x = 2, vec_y = - 4\<rparr>,
      force = zero_vector, torque = 0, deltaTime = 1000 / 60\<rparr>"

text \<open>The power-up variant in a window of 20 by 20, the ball at (5, 5).\<close>

definition tiny_window :: arena where
  "tiny_window = (startGame 20 20 initial)\<lparr>ball := createBody 5 5\<rparr>"

text \<open>The ball 30 units to the right of the keyboard player, and of the AI player.\<close>

definition near_kickoff :: arena where
  "near_kickoff = kickoff\<lparr>ball := createBody 230 (600 / 14)\<rparr>"

definition near_duel :: "real duel" where
  "near_duel = duel0\<lparr>ball := createBody 630 300\<rparr>"

text \<open>"Start Game", five goals in the right goal, then one firing of the game timer.\<close>

definition five_goals_then_tick :: "event list" where
  "five_goals_then_tick =
     StartClicked # replicate 5 (CollisionStart [(Ball, RightGoal)]) @ [GameIntervalFired]"

text \<open>Two snapshots as a peer receives them one after the other.\<close>

definition first_move :: "real option move_data" where
  "first_move = \<lparr>data_position = \<lparr>vec_x = Some 210, vec_y = Some 300\<rparr>,
                  data_velocity = \<lparr>vec_x = Some 1, vec_y = Some 0\<rparr>\<rparr>"

definition second_move :: "real option move_data" where
  "second_move = \<lparr>data_position = \<lparr>vec_x = Some 220, vec_y = Some 300\<rparr>,
                   data_velocity = \<lparr>vec_x = Some 1, vec_y = Some 0\<rparr>\<rparr>"

text \<open>A snapshot as a peer emits it when the position of its player has a
  component that is not a number and its velocity an infinite one.\<close>

definition bad_move :: "jsnum move_data" where
  "bad_move = \<lparr>data_position = \<lparr>vec_x = NaN, vec_y = Finite 300\<rparr>,
                data_velocity = \<lparr>vec_x = PosInfinity, vec_y = Finite 0\<rparr>\<rparr>"

text \<open>
  To state what the clamp of the ball does: the value nearest to \<open>x\<close> between two
  bounds, and the two conditions under which the library's rounding plays no part
  in it. \<open>exact_clamp\<close>: the sums of \<open>Body.setPosition\<close> are exact where the clamp
  uses them (from each coordinate to where it belongs, and from a coordinate to
  itself). \<open>exact_bounce\<close>: the velocity \<open>Body.setVelocity\<close> stores is the one it is
  given, for the components the clamp hands to it (always so before matter-js 0.19).
\<close>

definition clamped :: "real \<Rightarrow> real \<Rightarrow> real \<Rightarrow> real" where
  "clamped lo hi x = (if x < lo then lo else if x > hi then hi else x)"

definition bounced :: "real \<Rightarrow> real \<Rightarrow> real \<Rightarrow> real \<Rightarrow> real" where
  "bounced lo hi x v = (if x < lo \<or> x > hi then - v * 0.5 else v)"

definition exact_clamp :: "real engine \<Rightarrow> real \<Rightarrow> real \<Rightarrow> real body \<Rightarrow> bool" where
  "exact_clamp eng width height b =
     (let x = vec_x (position b); y = vec_y (position b);
          x' = clamped 15 (width - 15) x; y' = clamped 15 (height - 15) y
      in moved eng x x' = x' \<and> moved eng x' x' = x'
         \<and> moved eng y y = y \<and> moved eng y y' = y')"

definition exact_bounce :: "real engine \<Rightarrow> real \<Rightarrow> real \<Rightarrow> real body \<Rightarrow> bool" where
  "exact_bounce eng width height b =
     (let x = vec_x (position b); y = vec_y (position b);
          x' = clamped 15 (width - 15) x; y' = clamped 15 (height - 15) y;
          u = vec_x (velocity b); v = vec_y (velocity b);
          ts = num_div eng (deltaTime b) (baseDelta eng)
      in stored eng ts x' (bounced 15 (width - 15) x u) = bounced 15 (width - 15) x u
         \<and> stored eng ts y v = v
         \<and> stored eng ts y' (bounced 15 (height - 15) y v) = bounced 15 (height - 15) y v)"

text \<open>The part of the state that decides the phase of the match.\<close>

definition control :: "arena \<Rightarrow> GamePhase \<times> int \<times> scoreboard \<times> bool \<times> bool \<times> bool" where
  "control s =
     (gamePhase s, timeLeft s, seen_score s, mounted s, gameInterval s, powerUpInterval s)"

section \<open>What the library's two functions do to a body\<close>

lemma setPosition_position:
  "vec_x (position (setPosition eng b p)) = moved eng (vec_x (position b)) (vec_x p)"
  "vec_y (position (setPosition eng b p)) = moved eng (vec_y (position b)) (vec_y p)"
  by (simp_all add: setPosition_def moved_def Let_def)

lemma setPosition_rest [simp]:
  "velocity (setPosition eng b p) = velocity b"
  "force (setPosition eng b p) = force b"
  "torque (setPosition eng b p) = torque b"
  "deltaTime (setPosition eng b p) = deltaTime b"
  by (simp_all add: setPosition_def Let_def)

lemma setVelocity_velocity:
  "vec_x (velocity (setVelocity eng b v)) =
     stored eng (num_div eng (deltaTime b) (baseDelta eng)) (vec_x (position b)) (vec_x v)"
  "vec_y (velocity (setVelocity eng b v)) =
     stored eng (num_div eng (deltaTime b) (baseDelta eng)) (vec_y (position b)) (vec_y v)"
  by (simp_all add: setVelocity_def stored_def Let_def)

lemma setVelocity_rest [simp]:
  "position (setVelocity eng b v) = position b"
  "force (setVelocity eng b v) = force b"
  "torque (setVelocity eng b v) = torque b"
  "deltaTime (setVelocity eng b v) = deltaTime b"
  by (simp_all add: setVelocity_def Let_def)

section \<open>What the handlers leave alone\<close>

text \<open>A force changes neither the position nor the velocity of a body.\<close>

lemma applyForce_position [simp]: "position (applyForce b p f) = position b"
  by (simp add: applyForce_def Let_def)

lemma applyForce_velocity [simp]: "velocity (applyForce b p f) = velocity b"
  by (simp add: applyForce_def Let_def)

lemma applyForce_force:
  "force (applyForce b p f) =
     \<lparr>vec_x = vec_x (force b) + vec_x f, vec_y = vec_y (force b) + vec_y f\<rparr>"
  by (simp add: applyForce_def Let_def)

text \<open>Moving a player touches neither the ball, the score nor the socket.\<close>

lemma set_body_pitch [simp]:
  "ball (set_body p b s) = ball s"
  "score (set_body p b s) = score s"
  "emitted (set_body p b s) = emitted s"
  by (cases p; simp)+

lemma movePlayer_pitch [simp]:
  "ball (movePlayer eng p d s) = ball s"
  "score (movePlayer eng p d s) = score s"
  "emitted (movePlayer eng p d s) = emitted s"
  by (simp_all add: movePlayer_def Let_def)

text \<open>A kick leaves the ball where it is and as fast as it is, and sends no
  \<open>'move'\<close>.\<close>

lemma kickBall_ball [simp]:
  "position (ball (kickBall k s)) = position (ball s)"
  "velocity (ball (kickBall k s)) = velocity (ball s)"
  by (simp_all add: kickBall_def Let_def)

lemma kickBall_score [simp]: "score (kickBall k s) = score s"
  by (simp add: kickBall_def Let_def)

lemma kickBall_no_move [simp]:
  "filter (\<lambda>m. event_name m = ''move'') (emitted (kickBall k s)) =
   filter (\<lambda>m. event_name m = ''move'') (emitted s)"
  by (simp add: kickBall_def Let_def)

lemma kickBall_duel_player [simp]: "player (kickBall_duel k s) = player s"
  by (simp add: kickBall_duel_def Let_def)

lemma kickBall_duel_no_move [simp]:
  "filter (\<lambda>m. event_name m = ''move'') (emitted (kickBall_duel k s)) =
   filter (\<lambda>m. event_name m = ''move'') (emitted s)"
  by (simp add: kickBall_duel_def Let_def)

text \<open>The AI loop, by induction on the team it runs over.\<close>

lemma moveAI_player_ball [simp]:
  "position (ball (moveAI_player eng g p s)) = position (ball s)"
  "velocity (ball (moveAI_player eng g p s)) = velocity (ball s)"
  by (simp_all add: moveAI_player_def Let_def)

lemma moveAI_player_score [simp]: "score (moveAI_player eng g p s) = score s"
  by (simp add: moveAI_player_def Let_def)

lemma moveAI_player_no_move [simp]:
  "filter (\<lambda>m. event_name m = ''move'') (emitted (moveAI_player eng g p s)) =
   filter (\<lambda>m. event_name m = ''move'') (emitted s)"
  by (simp add: moveAI_player_def Let_def)

lemma moveAI_ball:
  "position (ball (moveAI eng team g s)) = position (ball s)
   \<and> velocity (ball (moveAI eng team g s)) = velocity (ball s)"
  unfolding moveAI_def by (induction team arbitrary: s) simp_all

lemma moveAI_score [simp]: "score (moveAI eng team g s) = score s"
  unfolding moveAI_def by (induction team arbitrary: s) simp_all

lemma moveAI_no_move [simp]:
  "filter (\<lambda>m. event_name m = ''move'') (emitted (moveAI eng team g s)) =
   filter (\<lambda>m. event_name m = ''move'') (emitted s)"
  unfolding moveAI_def by (induction team arbitrary: s) simp_all

text \<open>The other blocks of the tick.\<close>

lemma collect_pitch:
  "ball (snd (collect c ps s)) = ball s
   \<and> score (snd (collect c ps s)) = score s
   \<and> emitted (snd (collect c ps s)) = emitted s"
  by (induction ps arbitrary: s) (simp_all add: split_def Let_def)

lemma collect_powerUps_pitch [simp]:
  "ball (collect_powerUps c s) = ball s"
  "score (collect_powerUps c s) = score s"
  "emitted (collect_powerUps c s) = emitted s"
  by (simp_all add: collect_powerUps_def split_def Let_def collect_pitch)

lemma powerUp_timer_pitch [simp]:
  "ball (powerUp_timer s) = ball s"
  "score (powerUp_timer s) = score s"
  "emitted (powerUp_timer s) = emitted s"
  by (simp_all add: powerUp_timer_def Let_def)

lemma magnet_pitch [simp]:
  "position (ball (magnet s)) = position (ball s)"
  "velocity (ball (magnet s)) = velocity (ball s)"
  "score (magnet s) = score s"
  "emitted (magnet s) = emitted s"
  by (simp_all add: magnet_def Let_def)

lemma move_user_pitch [simp]:
  "ball (move_user eng s) = ball s"
  "score (move_user eng s) = score s"
  "emitted (move_user eng s) = emitted s"
  by (simp_all add: move_user_def Let_def)

lemma beforeUpdate_score [simp]: "score (beforeUpdate eng c w h s) = score s"
  by (simp add: beforeUpdate_def Let_def)

lemma beforeUpdate_no_move:
  "filter (\<lambda>m. event_name m = ''move'') (emitted (beforeUpdate eng c w h a)) =
   filter (\<lambda>m. event_name m = ''move'') (emitted a)"
  by (simp add: beforeUpdate_def Let_def)

text \<open>The state right after "Start Game" in an 800 by 600 window.\<close>

lemma kickoff_facts:
  "ball kickoff = createBody 400 300"
  "team1 kickoff ! 0 = createBody 200 (600 / 14)"
  "playerPowerUp kickoff = None"
  "sounds kickoff = []"
  "emitted kickoff = []"
  by (simp_all add: kickoff_def startGame_def rerender_def effect_def cleanup_def initial_def
      TEAM_SIZE_def)

section \<open>The score under every handler\<close>

lemma resetPositions_score [simp]: "score (resetPositions eng w h s) = score s"
  by (simp add: resetPositions_def)

lemma collisionPair_score:
  "score (collisionPair eng w h pr s) =
     (if pr = (Ball, LeftGoal) \<or> pr = (LeftGoal, Ball)
      then (score s)\<lparr>player2 := player2 (score s) + 1\<rparr>
      else if pr = (Ball, RightGoal) \<or> pr = (RightGoal, Ball)
      then (score s)\<lparr>player1 := player1 (score s) + 1\<rparr>
      else score s)"
  by (cases pr) (auto simp add: collisionPair_def Let_def)

lemma collisionStart_player1:
  "player1 (score (collisionStart eng w h pairs s)) =
     player1 (score s)
     + int (length (filter (\<lambda>p. p = (Ball, RightGoal) \<or> p = (RightGoal, Ball)) pairs))"
  unfolding collisionStart_def
  by (induction pairs arbitrary: s) (simp_all add: collisionPair_score)

lemma collisionStart_player2:
  "player2 (score (collisionStart eng w h pairs s)) =
     player2 (score s)
     + int (length (filter (\<lambda>p. p = (Ball, LeftGoal) \<or> p = (LeftGoal, Ball)) pairs))"
  unfolding collisionStart_def
  by (induction pairs arbitrary: s) (simp_all add: collisionPair_score)

lemma effect_score [simp]: "score (effect w h s) = score s"
  by (simp add: effect_def)

lemma cleanup_score [simp]: "score (cleanup s) = score s"
  by (simp add: cleanup_def)

lemma rerender_score [simp]: "score (rerender w h b s) = score s"
  by (simp add: rerender_def)

lemma startGame_score [simp]: "score (startGame w h s) = \<lparr>player1 = 0, player2 = 0\<rparr>"
  by (simp add: startGame_def)

lemma gameInterval_tick_score [simp]: "score (gameInterval_tick w h s) = score s"
  by (simp add: gameInterval_tick_def endGame_def)

lemma handle_score_nonneg:
  assumes "0 \<le> player1 (score s)" and "0 \<le> player2 (score s)"
  shows "0 \<le> player1 (score (handle eng c w h ev s)) \<and> 0 \<le> player2 (score (handle eng c w h ev s))"
  using assms
  by (cases ev)
     (simp_all add: spawnPowerUp_def handleSpacebar_def handleKeyDown_def handleKeyUp_def
        collisionStart_player1 collisionStart_player2)

lemma run_score_nonneg:
  "0 \<le> player1 (score s) \<Longrightarrow> 0 \<le> player2 (score s) \<Longrightarrow>
   0 \<le> player1 (score (run eng c w h evs s)) \<and> 0 \<le> player2 (score (run eng c w h evs s))"
  unfolding run_def
proof (induction evs arbitrary: s)
  case Nil
  then show ?case by simp
next
  case (Cons ev evs)
  from handle_score_nonneg [OF Cons.prems]
  have "0 \<le> player1 (score (handle eng c w h ev s))" and "0 \<le> player2 (score (handle eng c w h ev s))"
    by simp_all
  from Cons.IH [OF this] show ?case by simp
qed

lemma receive_score: "score (receive eng m d) = score d"
  by (cases m) (simp_all add: on_move_def on_kick_def)

section \<open>The phase of the match under every handler\<close>

lemma set_body_control [simp]: "control (set_body p b s) = control s"
  by (cases p) (simp_all add: control_def)

lemma movePlayer_control [simp]: "control (movePlayer eng p d s) = control s"
  by (simp add: movePlayer_def Let_def)

lemma kickBall_control [simp]: "control (kickBall k s) = control s"
  by (simp add: kickBall_def Let_def control_def)

lemma moveAI_player_control [simp]: "control (moveAI_player eng g p s) = control s"
  by (simp add: moveAI_player_def Let_def)

lemma moveAI_control [simp]: "control (moveAI eng team g s) = control s"
  unfolding moveAI_def by (induction team arbitrary: s) simp_all

lemma collect_control: "control (snd (collect c ps s)) = control s"
  by (induction ps arbitrary: s) (simp_all add: split_def Let_def control_def)

lemma collect_powerUps_control [simp]: "control (collect_powerUps c s) = control s"
  using collect_control [of c "activePowerUps s" s]
  by (simp add: collect_powerUps_def split_def Let_def control_def)

lemma powerUp_timer_control [simp]: "control (powerUp_timer s) = control s"
  by (simp add: powerUp_timer_def Let_def control_def)

lemma magnet_control [simp]: "control (magnet s) = control s"
  by (simp add: magnet_def Let_def control_def)

lemma move_user_control [simp]: "control (move_user eng s) = control s"
  by (simp add: move_user_def movePlayer_def Let_def control_def)

lemma ball_update_control [simp]: "control (s\<lparr>ball := b\<rparr>) = control s"
  by (simp add: control_def)

lemma beforeUpdate_control [simp]: "control (beforeUpdate eng c w h s) = control s"
  by (simp add: beforeUpdate_def Let_def)

lemma resetPositions_control [simp]: "control (resetPositions eng w h s) = control s"
  by (simp add: resetPositions_def control_def)

lemma collisionPair_control [simp]: "control (collisionPair eng w h pr s) = control s"
  by (simp add: collisionPair_def Let_def) (simp add: control_def)

lemma collisionStart_control [simp]: "control (collisionStart eng w h pairs s) = control s"
  unfolding collisionStart_def by (induction pairs arbitrary: s) simp_all

lemma keys_control [simp]:
  "control (handleKeyDown k s) = control s"
  "control (handleKeyUp k s) = control s"
  "control (handleSpacebar code s) = control s"
  by (simp_all add: handleKeyDown_def handleKeyUp_def handleSpacebar_def)
     (simp_all add: control_def)

lemma spawnPowerUp_control [simp]: "control (spawnPowerUp p s) = control s"
  by (simp add: spawnPowerUp_def control_def)

lemma control_seen: "control a = control b \<Longrightarrow> seen_score a = seen_score b"
  by (simp add: control_def)

text \<open>"Start Game" mounts the effect in a render whose score is 0 - 0.\<close>

lemma startGame_control:
  "gamePhase s \<noteq> PLAYING \<Longrightarrow>
   control (startGame w h s) = (PLAYING, GAME_DURATION, \<lparr>player1 = 0, player2 = 0\<rparr>, True, True, True)"
  by (simp add: startGame_def rerender_def effect_def cleanup_def control_def)

text \<open>Goals change the score and nothing that decides the phase.\<close>

lemma goals_keep_control:
  "mounted s \<Longrightarrow>
   control (fold (handle eng c w h) (replicate n (CollisionStart [(Ball, RightGoal)])) s) = control s
   \<and> score (fold (handle eng c w h) (replicate n (CollisionStart [(Ball, RightGoal)])) s)
     = (score s)\<lparr>player1 := player1 (score s) + int n\<rparr>"
proof (induction n arbitrary: s)
  case 0
  then show ?case by simp
next
  case (Suc n)
  let ?s' = "collisionStart eng w h [(Ball, RightGoal)] s"
  have c: "control ?s' = control s" by simp
  with Suc.prems have m: "mounted ?s'" by (simp add: control_def)
  have sc: "score ?s' = (score s)\<lparr>player1 := player1 (score s) + 1\<rparr>"
    by (simp add: collisionStart_def collisionPair_score)
  from Suc.IH [OF m] c sc Suc.prems show ?case by simp
qed

text \<open>The score the timer reads is the one of the mounting render, in every state
  the component can reach: 0 - 0.\<close>

lemma gameInterval_tick_seen [simp]: "seen_score (gameInterval_tick w h s) = seen_score s"
  by (simp add: gameInterval_tick_def rerender_def effect_def cleanup_def endGame_def)

lemma handle_seen:
  assumes "seen_score s = \<lparr>player1 = 0, player2 = 0\<rparr>"
  shows "seen_score (handle eng c w h ev s) = \<lparr>player1 = 0, player2 = 0\<rparr>"
proof (cases ev)
  case StartClicked
  show ?thesis
  proof (cases "gamePhase s = PLAYING")
    case True
    with StartClicked assms show ?thesis by simp
  next
    case False
    from startGame_control [OF False, of w h] StartClicked False show ?thesis
      by (simp add: control_def)
  qed
next
  case GameIntervalFired
  with assms show ?thesis by simp
next
  case (PowerUpIntervalFired p)
  with assms control_seen [OF spawnPowerUp_control] show ?thesis by simp
next
  case (KeyDown k code)
  have "control (handleSpacebar code (handleKeyDown k s)) = control s" by simp
  from control_seen [OF this] KeyDown assms show ?thesis by simp
next
  case (KeyUp k)
  with assms control_seen [OF keys_control(2)] show ?thesis by simp
next
  case BeforeUpdate
  with assms control_seen [OF beforeUpdate_control] show ?thesis by simp
next
  case (CollisionStart pairs)
  with assms control_seen [OF collisionStart_control] show ?thesis by simp
qed

lemma run_seen:
  "seen_score s = \<lparr>player1 = 0, player2 = 0\<rparr> \<Longrightarrow>
   seen_score (run eng c w h evs s) = \<lparr>player1 = 0, player2 = 0\<rparr>"
  unfolding run_def
  by (induction evs arbitrary: s) (simp_all add: handle_seen)

lemma stale_score_everywhere:
  "seen_score (run eng c w h evs initial) = \<lparr>player1 = 0, player2 = 0\<rparr>"
  by (rule run_seen) (simp add: initial_def)

text \<open>So, whatever the score, a firing of the timer ends the match exactly when the
  time is up.\<close>

lemma only_the_timer_ends_the_match:
  "gamePhase (gameInterval_tick w h (run eng c w' h' evs initial)) = END
   \<longleftrightarrow> gamePhase (run eng c w' h' evs initial) = END
       \<or> (gameInterval (run eng c w' h' evs initial) \<and> timeLeft (run eng c w' h' evs initial) \<le> 0)"
  using stale_score_everywhere [of eng c w' h' evs]
  by (simp add: gameInterval_tick_def rerender_def effect_def cleanup_def endGame_def
      WINNING_SCORE_def)

text \<open>When the time is up the timer ends the match, and the cleanup of the effect
  unmounts everything; from then on only "Play Again" changes the state.\<close>

lemma timer_expiry_ends_match:
  assumes "gamePhase s = PLAYING" and "gameInterval s" and "timeLeft s \<le> 0"
  shows "control (gameInterval_tick w h s) = (END, 0, seen_score s, False, False, False)"
  using assms
  by (simp add: gameInterval_tick_def rerender_def effect_def cleanup_def endGame_def control_def)

lemma ended_match_is_sealed:
  assumes "gamePhase s = END" and "\<not> mounted s" and "\<not> gameInterval s"
    and "\<not> powerUpInterval s" and "ev \<noteq> StartClicked"
  shows "handle eng c w h ev s = s"
  using assms
  by (cases ev) (simp_all add: gameInterval_tick_def spawnPowerUp_def)

text \<open>The relay, for every list of sockets.\<close>

lemma relay_kick_nowhere: "relay sockets sender (Kick d) = []"
  by (simp add: relay_def)

lemma relay_move_everyone_else:
  "relay sockets sender (Move d) = map (\<lambda>r. (r, Move d)) (filter (\<lambda>r. r \<noteq> sender) sockets)"
  by (simp add: relay_def)

section \<open>The clamp of the ball\<close>

lemma exact_clamp_x:
  assumes "exact_clamp eng w h b"
  shows "vec_x (position b) < 15 \<Longrightarrow> moved eng (vec_x (position b)) 15 = 15"
    and "vec_x (position b) < 15 \<Longrightarrow> moved eng 15 15 = 15"
    and "\<not> vec_x (position b) < 15 \<Longrightarrow> w - 15 < vec_x (position b) \<Longrightarrow>
         moved eng (vec_x (position b)) (w - 15) = w - 15"
    and "\<not> vec_x (position b) < 15 \<Longrightarrow> w - 15 < vec_x (position b) \<Longrightarrow>
         moved eng (w - 15) (w - 15) = w - 15"
    and "\<not> vec_x (position b) < 15 \<Longrightarrow> \<not> w - 15 < vec_x (position b) \<Longrightarrow>
         moved eng (vec_x (position b)) (vec_x (position b)) = vec_x (position b)"
  using assms by (simp_all add: exact_clamp_def clamped_def Let_def)

lemma exact_clamp_y:
  assumes "exact_clamp eng w h b"
  shows "moved eng (vec_y (position b)) (vec_y (position b)) = vec_y (position b)"
    and "vec_y (position b) < 15 \<Longrightarrow> moved eng (vec_y (position b)) 15 = 15"
    and "\<not> vec_y (position b) < 15 \<Longrightarrow> h - 15 < vec_y (position b) \<Longrightarrow>
         moved eng (vec_y (position b)) (h - 15) = h - 15"
  using assms by (simp_all add: exact_clamp_def clamped_def Let_def)

lemma keepBallInField_position:
  assumes "exact_clamp eng w h b"
  shows "vec_x (position (keepBallInField eng w h b)) = clamped 15 (w - 15) (vec_x (position b))"
    and "vec_y (position (keepBallInField eng w h b)) = clamped 15 (h - 15) (vec_y (position b))"
  by (simp_all add: clamped_def keepBallInField_def Let_def setPosition_position
      exact_clamp_x [OF assms] exact_clamp_y [OF assms])

lemma exact_bounce_x:
  assumes "exact_bounce eng w h b"
  shows "vec_x (position b) < 15 \<Longrightarrow>
         stored eng (num_div eng (deltaTime b) (baseDelta eng)) 15 (- vec_x (velocity b) * 0.5)
           = - vec_x (velocity b) * 0.5"
    and "\<not> vec_x (position b) < 15 \<Longrightarrow> w - 15 < vec_x (position b) \<Longrightarrow>
         stored eng (num_div eng (deltaTime b) (baseDelta eng)) (w - 15) (- vec_x (velocity b) * 0.5)
           = - vec_x (velocity b) * 0.5"
    and "\<not> vec_x (position b) < 15 \<Longrightarrow> \<not> w - 15 < vec_x (position b) \<Longrightarrow>
         stored eng (num_div eng (deltaTime b) (baseDelta eng)) (vec_x (position b)) (vec_x (velocity b))
           = vec_x (velocity b)"
  using assms by (simp_all add: exact_bounce_def clamped_def bounced_def Let_def)

lemma exact_bounce_y:
  assumes "exact_bounce eng w h b"
  shows "stored eng (num_div eng (deltaTime b) (baseDelta eng)) (vec_y (position b)) (vec_y (velocity b))
           = vec_y (velocity b)"
    and "vec_y (position b) < 15 \<Longrightarrow>
         stored eng (num_div eng (deltaTime b) (baseDelta eng)) 15 (- vec_y (velocity b) * 0.5)
           = - vec_y (velocity b) * 0.5"
    and "\<not> vec_y (position b) < 15 \<Longrightarrow> h - 15 < vec_y (position b) \<Longrightarrow>
         stored eng (num_div eng (deltaTime b) (baseDelta eng)) (h - 15) (- vec_y (velocity b) * 0.5)
           = - vec_y (velocity b) * 0.5"
  using assms by (simp_all add: exact_bounce_def clamped_def bounced_def Let_def)

lemma keepBallInField_velocity:
  assumes c: "exact_clamp eng w h b" and v: "exact_bounce eng w h b"
  shows "vec_x (velocity (keepBallInField eng w h b)) =
           bounced 15 (w - 15) (vec_x (position b)) (vec_x (velocity b))"
    and "vec_y (velocity (keepBallInField eng w h b)) =
           bounced 15 (h - 15) (vec_y (position b)) (vec_y (velocity b))"
  using exact_bounce_x [OF v] exact_bounce_y [OF v]
  by (simp_all add: bounced_def keepBallInField_def Let_def setPosition_position
      setVelocity_velocity exact_clamp_x [OF c] exact_clamp_y [OF c])

lemma applyForce_deltaTime [simp]: "deltaTime (applyForce b p f) = deltaTime b"
  by (simp add: applyForce_def Let_def)

lemma kickBall_ball_deltaTime [simp]: "deltaTime (ball (kickBall k s)) = deltaTime (ball s)"
  by (simp add: kickBall_def Let_def)

lemma moveAI_player_ball_deltaTime [simp]:
  "deltaTime (ball (moveAI_player eng g p s)) = deltaTime (ball s)"
  by (simp add: moveAI_player_def Let_def)

lemma moveAI_ball_deltaTime [simp]: "deltaTime (ball (moveAI eng team g s)) = deltaTime (ball s)"
  unfolding moveAI_def by (induction team arbitrary: s) simp_all

lemma magnet_ball_deltaTime [simp]: "deltaTime (ball (magnet s)) = deltaTime (ball s)"
  by (simp add: magnet_def Let_def)

lemma beforeUpdate_clamps:
  "\<exists>b. position b = position (ball s) \<and> velocity b = velocity (ball s)
        \<and> deltaTime b = deltaTime (ball s)
        \<and> ball (beforeUpdate eng c w h s) = keepBallInField eng w h b"
  unfolding beforeUpdate_def Let_def
  apply (rule exI)
  apply (intro conjI)
     prefer 4
     apply simp
    apply (simp_all add: moveAI_ball)
  done

lemma exact_clamp_cong:
  "position b' = position b \<Longrightarrow> exact_clamp eng w h b' = exact_clamp eng w h b"
  by (simp add: exact_clamp_def)

lemma exact_bounce_cong:
  "position b' = position b \<Longrightarrow> velocity b' = velocity b \<Longrightarrow> deltaTime b' = deltaTime b \<Longrightarrow>
   exact_bounce eng w h b' = exact_bounce eng w h b"
  by (simp add: exact_bounce_def)

section \<open>The arithmetic of the reals is exact\<close>

lemma exact_engine_moved [simp]: "moved (exact_engine v) p q = q"
  by (simp add: moved_def exact_engine_def)

lemma exact_engine_clamp: "exact_clamp (exact_engine v) w h b"
  by (simp add: exact_clamp_def Let_def)

lemma exact_engine_stored: "ts \<noteq> 0 \<Longrightarrow> stored (exact_engine v) ts p u = u"
  by (simp add: stored_def exact_engine_def)

lemma exact_engine_bounce:
  "num_div (exact_engine v) (deltaTime b) (baseDelta (exact_engine v)) \<noteq> 0 \<Longrightarrow>
   exact_bounce (exact_engine v) w h b"
  by (simp add: exact_bounce_def Let_def exact_engine_stored)

lemma exact_engine_fresh [simp]:
  "num_div (exact_engine v) (deltaTime (createBody px py)) (baseDelta (exact_engine v)) = 1"
  by (simp add: exact_engine_def createBody_def)

section \<open>The handlers of the socket\<close>

lemma on_move_position:
  "vec_x (position (player (on_move eng d s))) =
     moved eng (vec_x (position (player s))) (to_number eng (vec_x (data_position d)))"
  "vec_y (position (player (on_move eng d s))) =
     moved eng (vec_y (position (player s))) (to_number eng (vec_y (data_position d)))"
  by (simp_all add: on_move_def setPosition_position to_numbers_def)

lemma on_move_velocity:
  "vec_x (velocity (player (on_move eng d s))) =
     stored eng (num_div eng (deltaTime (player s)) (baseDelta eng))
       (moved eng (vec_x (position (player s))) (to_number eng (vec_x (data_position d))))
       (to_number eng (vec_x (data_velocity d)))"
  "vec_y (velocity (player (on_move eng d s))) =
     stored eng (num_div eng (deltaTime (player s)) (baseDelta eng))
       (moved eng (vec_y (position (player s))) (to_number eng (vec_y (data_position d))))
       (to_number eng (vec_y (data_velocity d)))"
  by (simp_all add: on_move_def setPosition_position setVelocity_velocity to_numbers_def)

lemma on_kick_position:
  "vec_x (position (ball (on_kick eng d s))) =
     moved eng (vec_x (position (ball s))) (to_number eng (vec_x (ballPosition d)))"
  "vec_y (position (ball (on_kick eng d s))) =
     moved eng (vec_y (position (ball s))) (to_number eng (vec_y (ballPosition d)))"
  by (simp_all add: on_kick_def setPosition_position to_numbers_def)

lemma on_kick_velocity:
  "vec_x (velocity (ball (on_kick eng d s))) =
     stored eng (num_div eng (deltaTime (ball s)) (baseDelta eng))
       (moved eng (vec_x (position (ball s))) (to_number eng (vec_x (ballPosition d))))
       (to_number eng (vec_x (ballVelocity d)))"
  "vec_y (velocity (ball (on_kick eng d s))) =
     stored eng (num_div eng (deltaTime (ball s)) (baseDelta eng))
       (moved eng (vec_y (position (ball s))) (to_number eng (vec_y (ballPosition d))))
       (to_number eng (vec_y (ballVelocity d)))"
  by (simp_all add: on_kick_def setPosition_position setVelocity_velocity to_numbers_def)

lemma on_move_rest [simp]:
  "force (player (on_move eng d s)) = force (player s)"
  "torque (player (on_move eng d s)) = torque (player s)"
  "deltaTime (player (on_move eng d s)) = deltaTime (player s)"
  "aiPlayer (on_move eng d s) = aiPlayer s"
  "ball (on_move eng d s) = ball s"
  "score (on_move eng d s) = score s"
  "emitted (on_move eng d s) = emitted s"
  by (simp_all add: on_move_def)

lemma vector_eqI: "vec_x a = vec_x b \<Longrightarrow> vec_y a = vec_y b \<Longrightarrow> (a :: 'n vector) = b"
  by simp

lemma duel0_player [simp]:
  "position (player duel0) = \<lparr>vec_x = 200, vec_y = 300\<rparr>"
  "velocity (player duel0) = \<lparr>vec_x = 0, vec_y = 0\<rparr>"
  "num_div (exact_engine v) (deltaTime (player duel0)) (baseDelta (exact_engine v)) = 1"
  by (simp_all add: duel0_def createBody_def zero_vector_def exact_engine_def)

lemma blend_by_one: "spec_blend_or_snap 1 m local remote = remote"
  by (simp add: spec_blend_or_snap_def sub_def Let_def)

lemma handleKeyDown_duel_player:
  "position (player (handleKeyDown_duel key s)) = position (player s)"
  "velocity (player (handleKeyDown_duel key s)) = velocity (player s)"
  by (simp_all add: handleKeyDown_duel_def Let_def)

lemma handleKeyDown_duel_moves:
  "filter (\<lambda>m. event_name m = ''move'') (emitted (handleKeyDown_duel key s)) =
     filter (\<lambda>m. event_name m = ''move'') (emitted s)
     @ [Move \<lparr>data_position = position (player s), data_velocity = velocity (player s)\<rparr>]"
  by (simp add: handleKeyDown_duel_def Let_def)

lemma js_fresh [simp]:
  "num_div (js_engine unrounded v) (deltaTime (js_body px py)) (baseDelta (js_engine unrounded v))
     = Finite 1"
  by (simp add: js_engine_def js_body_def unrounded_def)

lemma kickoff_ball_time [simp]:
  "num_div (exact_engine v) (deltaTime stray_ball) (baseDelta (exact_engine v)) = 1"
  by (simp add: exact_engine_def stray_ball_def)

section \<open>Values that are not finite stay so\<close>

text \<open>In the arithmetic of JavaScript, whatever the rounding: once a coordinate is
  \<open>NaN\<close> or infinite, \<open>Body.setPosition\<close> leaves \<open>NaN\<close> there, whatever finite
  position it is told.\<close>

lemma js_nan_sticks: "moved (js_engine rnd v) NaN q = NaN"
  by (simp add: moved_def js_engine_def)

lemma js_infinity_sticks:
  "moved (js_engine rnd v) PosInfinity (Finite q) = NaN"
  "moved (js_engine rnd v) NegInfinity (Finite q) = NaN"
  by (simp_all add: moved_def js_engine_def js_sub_def)

section \<open>C1: incoming snapshots and the local player\<close>

text \<open>
  C1, as stated, fails: a received \<open>'move'\<close> does not leave the locally controlled
  player untouched. The handler writes to \<open>player\<close>, the very body the keyboard
  drives: a player resting at (200, 300) that receives the position (10, 20) and
  the velocity (1, 0) has another position and another velocity afterwards, on
  either release of matter-js. (All the numbers are small integers, on which
  JavaScript's arithmetic is exact.)
\<close>

theorem on_move_mutates_local_player:
  "position (player (on_move (exact_engine False)
       \<lparr>data_position = \<lparr>vec_x = Some 10, vec_y = Some 20\<rparr>,
        data_velocity = \<lparr>vec_x = Some 1, vec_y = Some 0\<rparr>\<rparr> duel0))
     \<noteq> position (player duel0)
   \<and> velocity (player (on_move (exact_engine False)
       \<lparr>data_position = \<lparr>vec_x = Some 10, vec_y = Some 20\<rparr>,
        data_velocity = \<lparr>vec_x = Some 1, vec_y = Some 0\<rparr>\<rparr> duel0))
     \<noteq> velocity (player duel0)
   \<and> position (player (on_move (exact_engine True)
       \<lparr>data_position = \<lparr>vec_x = Some 10, vec_y = Some 20\<rparr>,
        data_velocity = \<lparr>vec_x = Some 1, vec_y = Some 0\<rparr>\<rparr> duel0))
     \<noteq> position (player duel0)
   \<and> velocity (player (on_move (exact_engine True)
       \<lparr>data_position = \<lparr>vec_x = Some 10, vec_y = Some 20\<rparr>,
        data_velocity = \<lparr>vec_x = Some 1, vec_y = Some 0\<rparr>\<rparr> duel0))
     \<noteq> velocity (player duel0)"
proof -
  let ?d = "\<lparr>data_position = \<lparr>vec_x = Some 10, vec_y = Some 20\<rparr>,
             data_velocity = \<lparr>vec_x = Some (1::real), vec_y = Some 0\<rparr>\<rparr>"
  have p: "vec_x (position (player (on_move (exact_engine v) ?d duel0))) = 10" for v
    by (simp add: on_move_position to_number_def)
  have u: "vec_x (velocity (player (on_move (exact_engine v) ?d duel0))) = 1" for v
    by (simp add: on_move_velocity to_number_def exact_engine_stored)
  have "position (player (on_move (exact_engine v) ?d duel0)) \<noteq> position (player duel0)
      \<and> velocity (player (on_move (exact_engine v) ?d duel0)) \<noteq> velocity (player duel0)" for v
    using p [of v] u [of v] by (auto simp del: duel0_player simp add: duel0_player(1,2))
  from this [of False] this [of True] show ?thesis by simp
qed

text \<open>
  C1, amended: a received \<open>'move'\<close> hands the received position and velocity to
  \<open>Body.setPosition\<close> and \<open>Body.setVelocity\<close> on \<open>player\<close> and changes nothing else.
  Each coordinate of the player becomes \<open>position + (received - position)\<close>, which
  is the received coordinate whenever that sum is exact; the velocity becomes
  what \<open>Body.setVelocity\<close> stores at the new position, which is the received
  velocity on matter-js before 0.19. The force, the torque and the time step of
  the player, the AI player, the ball, the score and the emitted messages are as
  before.
\<close>

theorem on_move_overwrites_player_only:
  "vec_x (position (player (on_move eng d s))) =
     moved eng (vec_x (position (player s))) (to_number eng (vec_x (data_position d)))
   \<and> vec_y (position (player (on_move eng d s))) =
     moved eng (vec_y (position (player s))) (to_number eng (vec_y (data_position d)))
   \<and> vec_x (velocity (player (on_move eng d s))) =
     stored eng (num_div eng (deltaTime (player s)) (baseDelta eng))
       (vec_x (position (player (on_move eng d s)))) (to_number eng (vec_x (data_velocity d)))
   \<and> vec_y (velocity (player (on_move eng d s))) =
     stored eng (num_div eng (deltaTime (player s)) (baseDelta eng))
       (vec_y (position (player (on_move eng d s)))) (to_number eng (vec_y (data_velocity d)))
   \<and> (moved eng (vec_x (position (player s))) (to_number eng (vec_x (data_position d)))
         = to_number eng (vec_x (data_position d))
      \<and> moved eng (vec_y (position (player s))) (to_number eng (vec_y (data_position d)))
         = to_number eng (vec_y (data_position d))
      \<longrightarrow> position (player (on_move eng d s)) = to_numbers eng (data_position d))
   \<and> (\<not> derives_velocity eng
      \<longrightarrow> velocity (player (on_move eng d s)) = to_numbers eng (data_velocity d))
   \<and> force (player (on_move eng d s)) = force (player s)
   \<and> torque (player (on_move eng d s)) = torque (player s)
   \<and> deltaTime (player (on_move eng d s)) = deltaTime (player s)
   \<and> aiPlayer (on_move eng d s) = aiPlayer s
   \<and> ball (on_move eng d s) = ball s
   \<and> score (on_move eng d s) = score s
   \<and> emitted (on_move eng d s) = emitted s"
proof -
  have v: "\<not> derives_velocity eng \<Longrightarrow>
           velocity (player (on_move eng d s)) = to_numbers eng (data_velocity d)"
    by (rule vector_eqI) (simp_all add: on_move_velocity stored_def to_numbers_def)
  have p: "position (player (on_move eng d s)) = to_numbers eng (data_position d)"
    if "moved eng (vec_x (position (player s))) (to_number eng (vec_x (data_position d)))
         = to_number eng (vec_x (data_position d))"
      and "moved eng (vec_y (position (player s))) (to_number eng (vec_y (data_position d)))
         = to_number eng (vec_y (data_position d))"
    using that by (intro vector_eqI) (simp_all add: on_move_position to_numbers_def)
  from v p show ?thesis
    by (simp add: on_move_position on_move_velocity)
qed

text \<open>
  C1, witness: the player of the opening position receives (210, 300) with
  velocity (1, 0); both sums are exact, and the player is at (210, 300) with
  velocity (1, 0), the AI player and the ball as before.
\<close>

theorem on_move_overwrites_player_only_witness:
  "position (player (on_move (exact_engine False) first_move duel0)) = \<lparr>vec_x = 210, vec_y = 300\<rparr>
   \<and> velocity (player (on_move (exact_engine False) first_move duel0)) = \<lparr>vec_x = 1, vec_y = 0\<rparr>
   \<and> aiPlayer (on_move (exact_engine False) first_move duel0) = aiPlayer duel0
   \<and> ball (on_move (exact_engine False) first_move duel0) = ball duel0"
  using on_move_overwrites_player_only [of "exact_engine False" first_move duel0]
  by (simp add: first_move_def to_numbers_def to_number_def) (simp add: exact_engine_def)

section \<open>C2: blending or snapping\<close>

text \<open>
  C2, as stated, fails: with an error of 10 units, under a snap threshold of 100,
  the specification's rule with factor 0.3 would move the player 3 units toward
  the snapshot; the handler puts the player on the snapshot at once, on either
  release of matter-js.
\<close>

theorem on_move_snaps_small_error:
  "magnitude (sub \<lparr>vec_x = 210, vec_y = 300\<rparr> (position (player duel0))) \<le> 100
   \<and> position (player (on_move (exact_engine False) first_move duel0))
     \<noteq> spec_blend_or_snap 0.3 100 (position (player duel0)) \<lparr>vec_x = 210, vec_y = 300\<rparr>
   \<and> position (player (on_move (exact_engine True) first_move duel0))
     \<noteq> spec_blend_or_snap 0.3 100 (position (player duel0)) \<lparr>vec_x = 210, vec_y = 300\<rparr>"
proof -
  have near: "sqrt (10 * 10) \<le> 100"
    by (simp add: real_le_lsqrt)
  have code: "vec_x (position (player (on_move (exact_engine v) first_move duel0))) = 210" for v
    by (simp add: on_move_position first_move_def to_number_def)
  have spec: "vec_x (spec_blend_or_snap 0.3 100 (position (player duel0))
                \<lparr>vec_x = 210, vec_y = 300\<rparr>) = 203"
    using near by (simp add: spec_blend_or_snap_def sub_def magnitude_def Let_def)
  have "position (player (on_move (exact_engine v) first_move duel0))
     \<noteq> spec_blend_or_snap 0.3 100 (position (player duel0)) \<lparr>vec_x = 210, vec_y = 300\<rparr>" for v
  proof
    assume "position (player (on_move (exact_engine v) first_move duel0))
      = spec_blend_or_snap 0.3 100 (position (player duel0)) \<lparr>vec_x = 210, vec_y = 300\<rparr>"
    then have "vec_x (position (player (on_move (exact_engine v) first_move duel0)))
      = vec_x (spec_blend_or_snap 0.3 100 (position (player duel0)) \<lparr>vec_x = 210, vec_y = 300\<rparr>)"
      by simp
    with code [of v] spec show False by simp
  qed
  from this [of False] this [of True] near show ?thesis
    by (simp add: sub_def magnitude_def)
qed

text \<open>
  C2, amended: the receiver has no blend factor and no threshold. Whatever the
  size of the error, a received \<open>'move'\<close> moves each coordinate of the player, and
  a received \<open>'kick'\<close> each coordinate of the ball, by the whole error at once:
  \<open>position + (received - position)\<close>, as \<open>Body.setPosition\<close> computes it. Whenever
  these sums are exact the position after the message is the received one, which
  is what the specification's rule gives with factor 1, for every threshold \<open>m\<close>.
\<close>

theorem on_move_always_snaps:
  "vec_x (position (player (on_move eng d s))) =
     moved eng (vec_x (position (player s))) (to_number eng (vec_x (data_position d)))
   \<and> vec_y (position (player (on_move eng d s))) =
     moved eng (vec_y (position (player s))) (to_number eng (vec_y (data_position d)))
   \<and> vec_x (position (ball (on_kick eng k s))) =
     moved eng (vec_x (position (ball s))) (to_number eng (vec_x (ballPosition k)))
   \<and> vec_y (position (ball (on_kick eng k s))) =
     moved eng (vec_y (position (ball s))) (to_number eng (vec_y (ballPosition k)))
   \<and> (moved eng' (vec_x (position (player s'))) (to_number eng' (vec_x (data_position d')))
         = to_number eng' (vec_x (data_position d'))
      \<and> moved eng' (vec_y (position (player s'))) (to_number eng' (vec_y (data_position d')))
         = to_number eng' (vec_y (data_position d'))
      \<longrightarrow> position (player (on_move eng' d' s'))
            = spec_blend_or_snap 1 m (position (player s')) (to_numbers eng' (data_position d')))
   \<and> (moved eng' (vec_x (position (ball s'))) (to_number eng' (vec_x (ballPosition k')))
         = to_number eng' (vec_x (ballPosition k'))
      \<and> moved eng' (vec_y (position (ball s'))) (to_number eng' (vec_y (ballPosition k')))
         = to_number eng' (vec_y (ballPosition k'))
      \<longrightarrow> position (ball (on_kick eng' k' s'))
            = spec_blend_or_snap 1 m (position (ball s')) (to_numbers eng' (ballPosition k')))"
proof -
  have p: "position (player (on_move eng' d' s')) = to_numbers eng' (data_position d')"
    if "moved eng' (vec_x (position (player s'))) (to_number eng' (vec_x (data_position d')))
         = to_number eng' (vec_x (data_position d'))"
      and "moved eng' (vec_y (position (player s'))) (to_number eng' (vec_y (data_position d')))
         = to_number eng' (vec_y (data_position d'))"
    using that by (intro vector_eqI) (simp_all add: on_move_position to_numbers_def)
  have b: "position (ball (on_kick eng' k' s')) = to_numbers eng' (ballPosition k')"
    if "moved eng' (vec_x (position (ball s'))) (to_number eng' (vec_x (ballPosition k')))
         = to_number eng' (vec_x (ballPosition k'))"
      and "moved eng' (vec_y (position (ball s'))) (to_number eng' (vec_y (ballPosition k')))
         = to_number eng' (vec_y (ballPosition k'))"
    using that by (intro vector_eqI) (simp_all add: on_kick_position to_numbers_def)
  from p b show ?thesis
    by (simp add: on_move_position on_kick_position blend_by_one)
qed

text \<open>
  C2, witness: from (200, 300) the received position (210, 300) is reached
  exactly, and so is the ball position (100, 100) from (400, 300).
\<close>

theorem on_move_always_snaps_witness:
  "position (player (on_move (exact_engine True) first_move duel0)) = \<lparr>vec_x = 210, vec_y = 300\<rparr>
   \<and> position (ball (on_kick (exact_engine True)
        \<lparr>ballPosition = \<lparr>vec_x = Some 100, vec_y = Some 100\<rparr>,
         ballVelocity = \<lparr>vec_x = Some 0, vec_y = Some 0\<rparr>\<rparr> duel0))
     = \<lparr>vec_x = 100, vec_y = 100\<rparr>"
  using on_move_always_snaps [of "exact_engine True" first_move duel0
      "\<lparr>ballPosition = \<lparr>vec_x = Some 100, vec_y = Some 100\<rparr>,
        ballVelocity = \<lparr>vec_x = Some 0, vec_y = Some 0\<rparr>\<rparr>"
      "exact_engine True" duel0 first_move 100
      "\<lparr>ballPosition = \<lparr>vec_x = Some 100, vec_y = Some 100\<rparr>,
        ballVelocity = \<lparr>vec_x = Some 0, vec_y = Some 0\<rparr>\<rparr>"]
  by (simp add: blend_by_one first_move_def to_numbers_def to_number_def)

section \<open>C3: stale snapshots\<close>

text \<open>
  C3, as stated, fails. Two keydowns in a row emit the same snapshot twice: a
  position and a velocity, and nothing that tells the second from the first. And
  the receiver discards nothing: when the first of two snapshots is delivered
  once more after the second, so that it is no newer than the last one applied,
  the state changes all the same.
\<close>

theorem stale_move_is_applied:
  "emitted (handleKeyDown_duel ''ArrowUp'' (handleKeyDown_duel ''ArrowUp'' duel0))
     = [Move \<lparr>data_position = \<lparr>vec_x = 200, vec_y = 300\<rparr>, data_velocity = \<lparr>vec_x = 0, vec_y = 0\<rparr>\<rparr>,
        Move \<lparr>data_position = \<lparr>vec_x = 200, vec_y = 300\<rparr>, data_velocity = \<lparr>vec_x = 0, vec_y = 0\<rparr>\<rparr>]
   \<and> on_move (exact_engine False) first_move
        (on_move (exact_engine False) second_move (on_move (exact_engine False) first_move duel0))
     \<noteq> on_move (exact_engine False) second_move (on_move (exact_engine False) first_move duel0)
   \<and> on_move (exact_engine True) first_move
        (on_move (exact_engine True) second_move (on_move (exact_engine True) first_move duel0))
     \<noteq> on_move (exact_engine True) second_move (on_move (exact_engine True) first_move duel0)"
proof -
  have twice: "emitted (handleKeyDown_duel ''ArrowUp'' (handleKeyDown_duel ''ArrowUp'' duel0))
     = [Move \<lparr>data_position = \<lparr>vec_x = 200, vec_y = 300\<rparr>, data_velocity = \<lparr>vec_x = 0, vec_y = 0\<rparr>\<rparr>,
        Move \<lparr>data_position = \<lparr>vec_x = 200, vec_y = 300\<rparr>, data_velocity = \<lparr>vec_x = 0, vec_y = 0\<rparr>\<rparr>]"
    by (simp add: handleKeyDown_duel_def Let_def duel0_def createBody_def zero_vector_def)
  have late: "vec_x (position (player (on_move (exact_engine v) first_move
        (on_move (exact_engine v) second_move (on_move (exact_engine v) first_move duel0))))) = 210"
    and before: "vec_x (position (player
        (on_move (exact_engine v) second_move (on_move (exact_engine v) first_move duel0)))) = 220"
    for v
    by (simp_all add: on_move_position first_move_def second_move_def to_number_def)
  have "on_move (exact_engine v) first_move
        (on_move (exact_engine v) second_move (on_move (exact_engine v) first_move duel0))
     \<noteq> on_move (exact_engine v) second_move (on_move (exact_engine v) first_move duel0)" for v
  proof
    assume "on_move (exact_engine v) first_move
        (on_move (exact_engine v) second_move (on_move (exact_engine v) first_move duel0))
      = on_move (exact_engine v) second_move (on_move (exact_engine v) first_move duel0)"
    then have "vec_x (position (player (on_move (exact_engine v) first_move
        (on_move (exact_engine v) second_move (on_move (exact_engine v) first_move duel0)))))
      = vec_x (position (player
        (on_move (exact_engine v) second_move (on_move (exact_engine v) first_move duel0))))"
      by simp
    with late [of v] before [of v] show False by simp
  qed
  from this [of False] this [of True] twice show ?thesis by simp
qed

text \<open>
  C3, amended: a snapshot carries a position and a velocity and no sequence
  number: two keydowns with no simulation step between them emit two equal
  snapshots. The receiver applies every received \<open>'move'\<close> in the order of arrival
  and discards none: after any deliveries \<open>ms\<close> followed by \<open>m\<close>, each coordinate of
  the player is where \<open>Body.setPosition\<close> puts it, told the position of \<open>m\<close>, from
  where \<open>ms\<close> left it; that is the position of \<open>m\<close>, the one delivered last, whenever
  the sum is exact.
\<close>

theorem every_move_is_applied:
  "filter (\<lambda>m. event_name m = ''move'')
       (emitted (handleKeyDown_duel key2 (handleKeyDown_duel key1 d)))
     = filter (\<lambda>m. event_name m = ''move'') (emitted d)
       @ [Move \<lparr>data_position = position (player d), data_velocity = velocity (player d)\<rparr>,
          Move \<lparr>data_position = position (player d), data_velocity = velocity (player d)\<rparr>]
   \<and> vec_x (position (player (fold (on_move eng) (ms @ [m]) s))) =
       moved eng (vec_x (position (player (fold (on_move eng) ms s))))
         (to_number eng (vec_x (data_position m)))
   \<and> vec_y (position (player (fold (on_move eng) (ms @ [m]) s))) =
       moved eng (vec_y (position (player (fold (on_move eng) ms s))))
         (to_number eng (vec_y (data_position m)))
   \<and> (moved eng (vec_x (position (player (fold (on_move eng) ms s))))
          (to_number eng (vec_x (data_position m))) = to_number eng (vec_x (data_position m))
      \<and> moved eng (vec_y (position (player (fold (on_move eng) ms s))))
          (to_number eng (vec_y (data_position m))) = to_number eng (vec_y (data_position m))
      \<longrightarrow> position (player (fold (on_move eng) (ms @ [m]) s)) = to_numbers eng (data_position m))"
proof -
  have p: "position (player (fold (on_move eng) (ms @ [m]) s)) = to_numbers eng (data_position m)"
    if "moved eng (vec_x (position (player (fold (on_move eng) ms s))))
          (to_number eng (vec_x (data_position m))) = to_number eng (vec_x (data_position m))"
      and "moved eng (vec_y (position (player (fold (on_move eng) ms s))))
          (to_number eng (vec_y (data_position m))) = to_number eng (vec_y (data_position m))"
    using that by (intro vector_eqI) (simp_all add: on_move_position to_numbers_def)
  from p show ?thesis
    by (simp add: on_move_position handleKeyDown_duel_moves handleKeyDown_duel_player)
qed

text \<open>
  C3, witness: after the first snapshot, the second and the first again, the
  player is at the position of the first: (210, 300).
\<close>

theorem every_move_is_applied_witness:
  "position (player (fold (on_move (exact_engine True)) ([first_move, second_move] @ [first_move]) duel0))
     = \<lparr>vec_x = 210, vec_y = 300\<rparr>"
  using every_move_is_applied [of _ _ _ "exact_engine True" "[first_move, second_move]" first_move duel0]
  by (simp add: first_move_def to_numbers_def to_number_def)

section \<open>C4: values that are not finite\<close>

text \<open>
  C4, as stated, fails. A peer whose player has \<open>NaN\<close> in its position sends its
  snapshot; the JSON encoding puts \<open>null\<close> in its place; nothing rejects the
  message, and the receiving player, which was at x = 200, is at x = 0
  afterwards.
\<close>

theorem nan_is_applied:
  "\<not> isFinite (vec_x (data_position bad_move))
   \<and> vec_x (data_position (encode_move (js_engine unrounded False) bad_move)) = None
   \<and> vec_x (position (player js_duel0)) = Finite 200
   \<and> vec_x (position (player (on_move (js_engine unrounded False)
        (encode_move (js_engine unrounded False) bad_move) js_duel0))) = Finite 0
   \<and> vec_x (position (player (on_move (js_engine unrounded True)
        (encode_move (js_engine unrounded True) bad_move) js_duel0))) = Finite 0"
  by (simp add: on_move_position bad_move_def encode_move_def encode_vector_def
      encode_number_def to_number_def moved_def)
     (simp add: js_engine_def js_duel0_def js_body_def js_sub_def unrounded_def)

text \<open>
  C4, amended: no snapshot is rejected. A component that is not finite at the
  sender arrives as \<open>null\<close> and is applied as the number 0, a finite one arrives
  and is applied as it is: each coordinate of the receiving player (for a
  \<open>'kick'\<close>, of the ball) becomes \<open>position + (value - position)\<close> for that value,
  and the velocity what \<open>Body.setVelocity\<close> stores for it.
\<close>

theorem no_snapshot_is_rejected:
  "vec_x (position (player (on_move eng (encode_move eng sent) s))) =
     moved eng (vec_x (position (player s)))
       (if is_finite eng (vec_x (data_position sent)) then vec_x (data_position sent)
        else num_zero eng)
   \<and> vec_y (position (player (on_move eng (encode_move eng sent) s))) =
     moved eng (vec_y (position (player s)))
       (if is_finite eng (vec_y (data_position sent)) then vec_y (data_position sent)
        else num_zero eng)
   \<and> vec_x (velocity (player (on_move eng (encode_move eng sent) s))) =
     stored eng (num_div eng (deltaTime (player s)) (baseDelta eng))
       (vec_x (position (player (on_move eng (encode_move eng sent) s))))
       (if is_finite eng (vec_x (data_velocity sent)) then vec_x (data_velocity sent)
        else num_zero eng)
   \<and> vec_y (velocity (player (on_move eng (encode_move eng sent) s))) =
     stored eng (num_div eng (deltaTime (player s)) (baseDelta eng))
       (vec_y (position (player (on_move eng (encode_move eng sent) s))))
       (if is_finite eng (vec_y (data_velocity sent)) then vec_y (data_velocity sent)
        else num_zero eng)
   \<and> vec_x (position (ball (on_kick eng (encode_kick eng kicked) s))) =
     moved eng (vec_x (position (ball s)))
       (if is_finite eng (vec_x (ballPosition kicked)) then vec_x (ballPosition kicked)
        else num_zero eng)
   \<and> vec_y (position (ball (on_kick eng (encode_kick eng kicked) s))) =
     moved eng (vec_y (position (ball s)))
       (if is_finite eng (vec_y (ballPosition kicked)) then vec_y (ballPosition kicked)
        else num_zero eng)
   \<and> vec_x (velocity (ball (on_kick eng (encode_kick eng kicked) s))) =
     stored eng (num_div eng (deltaTime (ball s)) (baseDelta eng))
       (vec_x (position (ball (on_kick eng (encode_kick eng kicked) s))))
       (if is_finite eng (vec_x (ballVelocity kicked)) then vec_x (ballVelocity kicked)
        else num_zero eng)
   \<and> vec_y (velocity (ball (on_kick eng (encode_kick eng kicked) s))) =
     stored eng (num_div eng (deltaTime (ball s)) (baseDelta eng))
       (vec_y (position (ball (on_kick eng (encode_kick eng kicked) s))))
       (if is_finite eng (vec_y (ballVelocity kicked)) then vec_y (ballVelocity kicked)
        else num_zero eng)"
  by (simp add: on_move_position on_move_velocity on_kick_position on_kick_velocity
      encode_move_def encode_kick_def encode_vector_def encode_number_def to_number_def)

section \<open>C5: goals and the score\<close>

text \<open>
  C5: a collision pair of the ball and the left goal sensor, in either order, adds
  one to \<open>player2\<close> and leaves \<open>player1\<close>; one with the right goal sensor adds one
  to \<open>player1\<close> and leaves \<open>player2\<close>. Over the pairs of one \<open>collisionStart\<close>
  event each score grows by the number of such pairs, no more. In every state the
  component reaches from its first render the scores are not negative. Goals
  are found by the local collision only: no received message, however often or
  in whatever order it is delivered, changes the score.
\<close>

theorem goal_scores_once:
  "score (collisionPair eng w h (Ball, LeftGoal) s) = (score s)\<lparr>player2 := player2 (score s) + 1\<rparr>
   \<and> score (collisionPair eng w h (LeftGoal, Ball) s) = (score s)\<lparr>player2 := player2 (score s) + 1\<rparr>
   \<and> score (collisionPair eng w h (Ball, RightGoal) s) = (score s)\<lparr>player1 := player1 (score s) + 1\<rparr>
   \<and> score (collisionPair eng w h (RightGoal, Ball) s) = (score s)\<lparr>player1 := player1 (score s) + 1\<rparr>
   \<and> player1 (score (collisionStart eng w h pairs s)) =
       player1 (score s)
       + int (length (filter (\<lambda>p. p = (Ball, RightGoal) \<or> p = (RightGoal, Ball)) pairs))
   \<and> player2 (score (collisionStart eng w h pairs s)) =
       player2 (score s)
       + int (length (filter (\<lambda>p. p = (Ball, LeftGoal) \<or> p = (LeftGoal, Ball)) pairs))
   \<and> 0 \<le> player1 (score (run eng c w h evs initial))
   \<and> 0 \<le> player2 (score (run eng c w h evs initial))
   \<and> score (receive eng' m d) = score d"
proof -
  have "0 \<le> player1 (score (run eng c w h evs initial))
      \<and> 0 \<le> player2 (score (run eng c w h evs initial))"
    by (rule run_score_nonneg) (simp_all add: initial_def)
  then show ?thesis
    by (simp add: collisionPair_score collisionStart_player1 collisionStart_player2 receive_score)
qed

section \<open>C6: what the relay forwards\<close>

text \<open>
  C6: with two peers connected, a \<open>'move'\<close> sent by peer 1 is delivered to peer 2,
  but a \<open>'kick'\<close> sent by peer 1 is delivered to nobody: the server has no listener
  for it.
\<close>

theorem relay_drops_kick:
  "relay [1, 2] 1 (Kick \<lparr>ballPosition = \<lparr>vec_x = 400, vec_y = 300\<rparr>,
                         ballVelocity = zero_vector\<rparr>) = []
   \<and> relay [1, 2] 1 (Move \<lparr>data_position = \<lparr>vec_x = 200, vec_y = 300\<rparr>,
                           data_velocity = zero_vector\<rparr>)
     = [(2, Move \<lparr>data_position = \<lparr>vec_x = 200, vec_y = 300\<rparr>, data_velocity = zero_vector\<rparr>)]"
  by (simp add: relay_def)

section \<open>C7: the end of the match\<close>

text \<open>
  C7: after "Start Game" and five goals for \<open>player1\<close> the score is 5 - 0, the
  winning score; the next firing of the game timer does not end the match: the
  phase is still \<open>PLAYING\<close> and the clock goes from 120 to 119. The timer compares
  the score of the render that mounted the effect, which is 0 - 0.
\<close>

theorem win_score_does_not_end_game:
  "score (run eng never_collides 800 600 five_goals_then_tick initial) = \<lparr>player1 = 5, player2 = 0\<rparr>
   \<and> gamePhase (run eng never_collides 800 600 five_goals_then_tick initial) = PLAYING
   \<and> timeLeft (run eng never_collides 800 600 five_goals_then_tick initial) = 119"
proof -
  let ?h = "handle eng never_collides 800 600"
  let ?s1 = "startGame 800 600 initial"
  let ?s2 = "fold ?h (replicate 5 (CollisionStart [(Ball, RightGoal)])) ?s1"
  have c1: "control ?s1 = (PLAYING, GAME_DURATION, \<lparr>player1 = 0, player2 = 0\<rparr>, True, True, True)"
    by (rule startGame_control) (simp add: initial_def)
  then have m1: "mounted ?s1" by (simp add: control_def)
  from goals_keep_control [OF m1, of eng never_collides 800 600 5]
  have c2: "control ?s2 = control ?s1" and sc2: "score ?s2 = \<lparr>player1 = 5, player2 = 0\<rparr>"
    by simp_all
  have r: "run eng never_collides 800 600 five_goals_then_tick initial
             = gameInterval_tick 800 600 ?s2"
    by (simp add: run_def five_goals_then_tick_def initial_def)
  from c1 c2 have f: "gamePhase ?s2 = PLAYING" "timeLeft ?s2 = 120" "gameInterval ?s2"
    "seen_score ?s2 = \<lparr>player1 = 0, player2 = 0\<rparr>"
    by (simp_all add: control_def GAME_DURATION_def)
  show ?thesis
    unfolding r using f sc2
    by (simp add: gameInterval_tick_def WINNING_SCORE_def)
qed

section \<open>C8: when snapshots are sent\<close>

text \<open>
  C8, as stated, fails: a simulation tick sends no snapshot. In the two-player
  component the tick of the opening position emits nothing at all, and in the
  power-up component the tick after the kick-off emits no \<open>'move'\<close>.
\<close>

theorem tick_sends_no_snapshot:
  "emitted (moveAIPlayer 800 600 duel0) = []
   \<and> filter (\<lambda>m. event_name m = ''move'')
        (emitted (beforeUpdate (exact_engine False) never_collides 800 600 kickoff)) = []
   \<and> filter (\<lambda>m. event_name m = ''move'')
        (emitted (beforeUpdate (exact_engine True) never_collides 800 600 kickoff)) = []"
proof -
  have "50 \<le> sqrt (200 * 200)"
    by (simp add: real_le_rsqrt)
  then have "emitted (moveAIPlayer 800 600 duel0) = []"
    by (simp add: moveAIPlayer_def kickBall_duel_def Let_def duel0_def createBody_def
        applyForce_def sub_def magnitude_def)
  then show ?thesis
    by (simp add: beforeUpdate_no_move kickoff_facts)
qed

text \<open>
  C8, amended: in the two-player component a snapshot of the player is sent once
  for each keydown event, whatever the key, with the position and the velocity
  the player has at that moment; a simulation tick sends none, in the two-player
  component and in the power-up component alike.
\<close>

theorem snapshot_sent_per_keydown:
  "filter (\<lambda>m. event_name m = ''move'') (emitted (handleKeyDown_duel key s)) =
     filter (\<lambda>m. event_name m = ''move'') (emitted s)
     @ [Move \<lparr>data_position = position (player s), data_velocity = velocity (player s)\<rparr>]
   \<and> filter (\<lambda>m. event_name m = ''move'') (emitted (moveAIPlayer w h s)) =
     filter (\<lambda>m. event_name m = ''move'') (emitted s)
   \<and> filter (\<lambda>m. event_name m = ''move'') (emitted (beforeUpdate eng c w h a)) =
     filter (\<lambda>m. event_name m = ''move'') (emitted a)"
  by (simp add: handleKeyDown_duel_def moveAIPlayer_def Let_def beforeUpdate_no_move)

section \<open>C9: the ball stays in the field\<close>

text \<open>
  C9, as stated, fails. In a window of 20 by 20 the tick puts a ball that was at
  x = 5 on x = 15, to the right of the upper bound 20 - 15. And in the window of
  800 by 600, for the ball at (5, 700) with velocity (2, -4), the x coordinate is
  clamped and the other velocity component does not stay as it was: the y
  coordinate is clamped in the same tick.
\<close>

theorem ball_leaves_small_field:
  "20 - 15 < vec_x (position (ball (beforeUpdate (exact_engine False) never_collides 20 20 tiny_window)))
   \<and> 20 - 15 < vec_x (position (ball (beforeUpdate (exact_engine True) never_collides 20 20 tiny_window)))
   \<and> vec_x (position stray_ball) < 15
   \<and> vec_y (velocity (ball (beforeUpdate (exact_engine False) never_collides 800 600
        (kickoff\<lparr>ball := stray_ball\<rparr>)))) \<noteq> vec_y (velocity stray_ball)
   \<and> vec_y (velocity (ball (beforeUpdate (exact_engine True) never_collides 800 600
        (kickoff\<lparr>ball := stray_ball\<rparr>)))) \<noteq> vec_y (velocity stray_ball)"
proof -
  have small: "vec_x (position (ball (beforeUpdate (exact_engine v) never_collides 20 20 tiny_window)))
      = 15" for v
  proof -
    from beforeUpdate_clamps [of tiny_window "exact_engine v" never_collides 20 20]
    obtain b where b: "position b = position (ball tiny_window)"
      and after: "ball (beforeUpdate (exact_engine v) never_collides 20 20 tiny_window)
                  = keepBallInField (exact_engine v) 20 20 b"
      by blast
    from b have x: "vec_x (position b) = 5"
      by (simp add: tiny_window_def createBody_def)
    from keepBallInField_position(1) [where eng = "exact_engine v" and b = b and w = 20 and h = 20,
        OF exact_engine_clamp] x after
    show ?thesis by (simp add: clamped_def)
  qed
  have both: "vec_y (velocity (ball (beforeUpdate (exact_engine v) never_collides 800 600
        (kickoff\<lparr>ball := stray_ball\<rparr>)))) = 2" for v
  proof -
    let ?s = "kickoff\<lparr>ball := stray_ball\<rparr>"
    from beforeUpdate_clamps [of ?s "exact_engine v" never_collides 800 600]
    obtain b where b: "position b = position stray_ball" "velocity b = velocity stray_ball"
        "deltaTime b = deltaTime stray_ball"
      and after: "ball (beforeUpdate (exact_engine v) never_collides 800 600 ?s)
                  = keepBallInField (exact_engine v) 800 600 b"
      by auto
    have ts: "num_div (exact_engine v) (deltaTime b) (baseDelta (exact_engine v)) \<noteq> 0"
      using b by simp
    from keepBallInField_velocity(2) [where eng = "exact_engine v" and b = b and w = 800 and h = 600,
        OF exact_engine_clamp exact_engine_bounce [OF ts]] b after
    show ?thesis by (simp add: stray_ball_def bounced_def)
  qed
  from small [of False] small [of True] both [of False] both [of True] show ?thesis
    by (simp add: stray_ball_def)
qed

text \<open>
  C9, amended: in a window of at least 30 by 30, when the sums of
  \<open>Body.setPosition\<close> are exact for the clamp (\<open>exact_clamp\<close>), each coordinate of
  the ball after a \<open>beforeUpdate\<close> tick of the power-up component is the value
  nearest to the old one within its bounds, so the ball lies within
  [15, width - 15] x [15, height - 15]. When moreover \<open>Body.setVelocity\<close> stores
  what it is given (\<open>exact_bounce\<close>; always so before matter-js 0.19), the
  velocity component of each coordinate that was out of its bounds is its
  negation times 0.5, and the component of each coordinate that was within its
  bounds is unchanged.
\<close>

theorem ball_kept_in_field:
  assumes "30 \<le> width" and "30 \<le> height"
    and exact: "exact_clamp eng width height (ball s)"
  shows "vec_x (position (ball (beforeUpdate eng c width height s)))
           = clamped 15 (width - 15) (vec_x (position (ball s)))
       \<and> vec_y (position (ball (beforeUpdate eng c width height s)))
           = clamped 15 (height - 15) (vec_y (position (ball s)))
       \<and> 15 \<le> vec_x (position (ball (beforeUpdate eng c width height s)))
       \<and> vec_x (position (ball (beforeUpdate eng c width height s))) \<le> width - 15
       \<and> 15 \<le> vec_y (position (ball (beforeUpdate eng c width height s)))
       \<and> vec_y (position (ball (beforeUpdate eng c width height s))) \<le> height - 15
       \<and> (exact_bounce eng width height (ball s) \<longrightarrow>
             vec_x (velocity (ball (beforeUpdate eng c width height s))) =
               (if vec_x (position (ball s)) < 15 \<or> vec_x (position (ball s)) > width - 15
                then - vec_x (velocity (ball s)) * 0.5 else vec_x (velocity (ball s)))
           \<and> vec_y (velocity (ball (beforeUpdate eng c width height s))) =
               (if vec_y (position (ball s)) < 15 \<or> vec_y (position (ball s)) > height - 15
                then - vec_y (velocity (ball s)) * 0.5 else vec_y (velocity (ball s))))"
proof -
  from beforeUpdate_clamps [of s eng c width height]
  obtain b where b: "position b = position (ball s)" "velocity b = velocity (ball s)"
      "deltaTime b = deltaTime (ball s)"
    and after: "ball (beforeUpdate eng c width height s) = keepBallInField eng width height b"
    by blast
  from exact exact_clamp_cong [OF b(1)] have clamp: "exact_clamp eng width height b"
    by simp
  from keepBallInField_position [OF clamp] b after
  have at: "vec_x (position (ball (beforeUpdate eng c width height s)))
           = clamped 15 (width - 15) (vec_x (position (ball s)))"
    "vec_y (position (ball (beforeUpdate eng c width height s)))
           = clamped 15 (height - 15) (vec_y (position (ball s)))"
    by simp_all
  have speed: "vec_x (velocity (ball (beforeUpdate eng c width height s))) =
               (if vec_x (position (ball s)) < 15 \<or> vec_x (position (ball s)) > width - 15
                then - vec_x (velocity (ball s)) * 0.5 else vec_x (velocity (ball s)))
           \<and> vec_y (velocity (ball (beforeUpdate eng c width height s))) =
               (if vec_y (position (ball s)) < 15 \<or> vec_y (position (ball s)) > height - 15
                then - vec_y (velocity (ball s)) * 0.5 else vec_y (velocity (ball s)))"
    if "exact_bounce eng width height (ball s)"
  proof -
    from that exact_bounce_cong [OF b] have "exact_bounce eng width height b"
      by simp
    from keepBallInField_velocity [OF clamp this] b after show ?thesis
      by (simp add: bounced_def)
  qed
  from at speed assms(1,2) show ?thesis
    by (simp add: clamped_def)
qed

text \<open>
  C9, witness: in the 800 by 600 window a ball at (5, 700) with velocity (2, -4)
  is out of bounds in both coordinates; after the tick it is inside and its
  velocity is (-1, 2), on either release of matter-js.
\<close>

theorem ball_kept_in_field_witness:
  "15 \<le> vec_x (position (ball (beforeUpdate (exact_engine True) never_collides 800 600
        (kickoff\<lparr>ball := stray_ball\<rparr>))))
   \<and> vec_y (position (ball (beforeUpdate (exact_engine True) never_collides 800 600
        (kickoff\<lparr>ball := stray_ball\<rparr>)))) \<le> 585
   \<and> vec_x (velocity (ball (beforeUpdate (exact_engine True) never_collides 800 600
        (kickoff\<lparr>ball := stray_ball\<rparr>)))) = - 1
   \<and> vec_y (velocity (ball (beforeUpdate (exact_engine True) never_collides 800 600
        (kickoff\<lparr>ball := stray_ball\<rparr>)))) = 2
   \<and> vec_x (velocity (ball (beforeUpdate (exact_engine False) never_collides 800 600
        (kickoff\<lparr>ball := stray_ball\<rparr>)))) = - 1"
  using ball_kept_in_field [of 800 600 "exact_engine True" "kickoff\<lparr>ball := stray_ball\<rparr>" never_collides]
    ball_kept_in_field [of 800 600 "exact_engine False" "kickoff\<lparr>ball := stray_ball\<rparr>" never_collides]
  by (simp add: exact_engine_clamp exact_engine_bounce) (simp add: stray_ball_def clamped_def)

section \<open>C10: a kick needs the ball in range\<close>

text \<open>
  C10: in both components, when the ball is 50 units or more from the kicker,
  \<open>kickBall\<close> returns the state as it was: no force on the ball, no sound, no
  message. When the ball is less than 50 units away, the force on the ball grows
  by the unit vector from the kicker to the ball times the kick force (0.03, or
  0.06 for the keyboard player with a super kick; 0.02 in the two-player
  component), the kick sound is played (power-up component) and one \<open>'kick'\<close> with
  the ball's position and velocity is emitted.
\<close>

theorem kickBall_only_within_range:
  "(50 \<le> magnitude (sub (position (ball s)) (position (body_of s k))) \<longrightarrow> kickBall k s = s)
   \<and> (magnitude (sub (position (ball s)) (position (body_of s k))) < 50 \<longrightarrow>
        force (ball (kickBall k s)) =
          \<lparr>vec_x = vec_x (force (ball s))
                    + vec_x (mult (normalise (sub (position (ball s)) (position (body_of s k))))
                               (if k = Team1 0 \<and> playerPowerUp s = Some SUPER_KICK then 0.06 else 0.03)),
           vec_y = vec_y (force (ball s))
                    + vec_y (mult (normalise (sub (position (ball s)) (position (body_of s k))))
                               (if k = Team1 0 \<and> playerPowerUp s = Some SUPER_KICK then 0.06 else 0.03))\<rparr>
        \<and> sounds (kickBall k s) = sounds s @ [KickSound]
        \<and> emitted (kickBall k s) =
            emitted s @ [Kick \<lparr>ballPosition = position (ball s), ballVelocity = velocity (ball s)\<rparr>])
   \<and> (50 \<le> magnitude (sub (position (ball d)) (position kicker)) \<longrightarrow> kickBall_duel kicker d = d)
   \<and> (magnitude (sub (position (ball d)) (position kicker)) < 50 \<longrightarrow>
        force (ball (kickBall_duel kicker d)) =
          \<lparr>vec_x = vec_x (force (ball d))
                    + vec_x (mult (normalise (sub (position (ball d)) (position kicker))) 0.02),
           vec_y = vec_y (force (ball d))
                    + vec_y (mult (normalise (sub (position (ball d)) (position kicker))) 0.02)\<rparr>
        \<and> emitted (kickBall_duel kicker d) =
            emitted d @ [Kick \<lparr>ballPosition = position (ball d), ballVelocity = velocity (ball d)\<rparr>])"
  by (simp add: kickBall_def kickBall_duel_def Let_def applyForce_force)

text \<open>
  C10, witness: at the kick-off the ball is more than 50 units from the keyboard
  player, and from the player of the two-player component, and the kick does
  nothing; with the ball 30 units to the right of the kicker the force on the
  ball is the kick force along the x axis and the \<open>'kick'\<close> is emitted.
\<close>

theorem kickBall_only_within_range_witness:
  "kickBall (Team1 0) kickoff = kickoff
   \<and> force (ball (kickBall (Team1 0) near_kickoff)) = \<lparr>vec_x = 0.03, vec_y = 0\<rparr>
   \<and> sounds (kickBall (Team1 0) near_kickoff) = [KickSound]
   \<and> emitted (kickBall (Team1 0) near_kickoff) =
       [Kick \<lparr>ballPosition = \<lparr>vec_x = 230, vec_y = 600 / 14\<rparr>, ballVelocity = zero_vector\<rparr>]
   \<and> kickBall_duel (player duel0) duel0 = duel0
   \<and> force (ball (kickBall_duel (aiPlayer near_duel) near_duel)) = \<lparr>vec_x = 0.02, vec_y = 0\<rparr>
   \<and> emitted (kickBall_duel (aiPlayer near_duel) near_duel) =
       [Kick \<lparr>ballPosition = \<lparr>vec_x = 630, vec_y = 300\<rparr>, ballVelocity = zero_vector\<rparr>]"
proof -
  have root: "sqrt 900 = 30"
    by (simp add: real_sqrt_unique)
  have far: "50 \<le> magnitude (sub (position (ball kickoff)) (position (body_of kickoff (Team1 0))))"
    by (simp add: kickoff_facts createBody_def sub_def magnitude_def real_le_rsqrt)
  have far_duel: "50 \<le> magnitude (sub (position (ball duel0)) (position (player duel0)))"
    by (simp add: duel0_def createBody_def sub_def magnitude_def real_le_rsqrt)
  have near: "magnitude (sub (position (ball near_kickoff))
                (position (body_of near_kickoff (Team1 0)))) < 50"
    by (simp add: near_kickoff_def kickoff_facts createBody_def sub_def magnitude_def root)
  have near_d: "magnitude (sub (position (ball near_duel)) (position (aiPlayer near_duel))) < 50"
    by (simp add: near_duel_def duel0_def createBody_def sub_def magnitude_def root)
  show ?thesis
    using kickBall_only_within_range [of kickoff "Team1 0" duel0 "player duel0"]
      kickBall_only_within_range [of near_kickoff "Team1 0" near_duel "aiPlayer near_duel"]
      far far_duel near near_d
    by (simp add: near_kickoff_def near_duel_def kickoff_facts duel0_def createBody_def
        sub_def magnitude_def normalise_def mult_def zero_vector_def root)
qed

end
